theory Spec2Isabelle
  imports Main "HOL-Library.Word" "HOL-Library.Sublist" "HOL-Library.Signed_Division"
begin

section \<open>Go library functions used by the syncer\<close>

text \<open>
  Go strings and byte slices are sequences of bytes: \<^typ>\<open>string\<close>, a list of 8-bit
  characters. Go's \<open>int\<close> is taken to be 64 bits wide; its values are embedded in
  \<^typ>\<open>int\<close>, and every conversion to a narrower type is written out with
  \<^const>\<open>word_of_int\<close>, which truncates as the Go conversion does.
\<close>

text \<open>\<open>strings.HasPrefix(s, prefix)\<close>: \<open>len(s) >= len(prefix) && s[:len(prefix)] == prefix\<close>.\<close>

definition HasPrefix :: "string \<Rightarrow> string \<Rightarrow> bool" where
  "HasPrefix s p = (length p \<le> length s \<and> take (length p) s = p)"

text \<open>
  \<open>strings.EqualFold(s, t)\<close> compares UTF-8 strings under simple Unicode case folding.
  The syncer only calls it with an ASCII literal as \<open>t\<close>. The fold orbit of an ASCII
  letter is its upper and lower case, with two exceptions that matter for such a \<open>t\<close>:
  U+017F (long s, bytes C5 BF) folds with \<open>s\<close>, and U+212A (Kelvin sign, bytes E2 84 AA)
  folds with \<open>k\<close>. \<open>fold_runes\<close> rewrites \<open>s\<close> rune by rune to the lower-case
  representative; any other non-ASCII byte is kept and so never equals an ASCII letter.
\<close>

definition lower_ascii :: "char \<Rightarrow> char" where
  "lower_ascii c = (if 65 \<le> (of_char c :: int) \<and> (of_char c :: int) \<le> 90
                    then char_of ((of_char c :: int) + 32) else c)"

fun fold_runes :: "string \<Rightarrow> string" where
  "fold_runes [] = []"
| "fold_runes (c # cs) =
     (if (of_char c :: int) = 0xC5 then
        (case cs of
           d # ds \<Rightarrow> if (of_char d :: int) = 0xBF then CHR ''s'' # fold_runes ds
                     else c # fold_runes cs
         | [] \<Rightarrow> [c])
      else if (of_char c :: int) = 0xE2 then
        (case cs of
           d # e # es \<Rightarrow> if (of_char d :: int) = 0x84 \<and> (of_char e :: int) = 0xAA
                         then CHR ''k'' # fold_runes es
                         else c # fold_runes cs
         | _ \<Rightarrow> c # fold_runes cs)
      else lower_ascii c # fold_runes cs)"

definition EqualFold :: "string \<Rightarrow> string \<Rightarrow> bool" where
  "EqualFold s t = (fold_runes s = map lower_ascii t)"

text \<open>
  \<open>strconv.Atoi(s)\<close> returns \<open>(n, err)\<close>. The model returns the number and whether
  \<open>err\<close> is non-nil. An optional sign is followed by one or more decimal digits; a syntax
  error gives \<open>(0, err)\<close>, a value outside the 64-bit range gives the nearest bound
  and a range error.
\<close>

definition is_digit :: "char \<Rightarrow> bool" where
  "is_digit c = (48 \<le> (of_char c :: int) \<and> (of_char c :: int) \<le> 57)"

fun all_digits :: "string \<Rightarrow> bool" where
  "all_digits [] = True"
| "all_digits (c # cs) = (is_digit c \<and> all_digits cs)"

fun digits_value :: "int \<Rightarrow> string \<Rightarrow> int" where
  "digits_value n [] = n"
| "digits_value n (c # cs) = digits_value (n * 10 + ((of_char c :: int) - 48)) cs"

definition Atoi :: "string \<Rightarrow> int \<times> bool" where
  "Atoi s =
     (let neg = (case s of c # _ \<Rightarrow> c = CHR ''-'' | [] \<Rightarrow> False);
          body = (case s of c # cs \<Rightarrow> if c = CHR ''-'' \<or> c = CHR ''+'' then cs else s
                  | [] \<Rightarrow> s)
      in if body = [] \<or> \<not> all_digits body then (0, True)
         else
           (let n = digits_value 0 body
            in if neg then (if n > 2 ^ 63 then (- (2 ^ 63), True) else (- n, False))
               else (if n \<ge> 2 ^ 63 then (2 ^ 63 - 1, True) else (n, False))))"

text \<open>\<open>strconv.FormatInt(i, 10)\<close>: the decimal digits of \<open>i\<close>, with a leading minus sign
  when \<open>i\<close> is negative.\<close>

function dec_digits :: "int \<Rightarrow> string" where
  "dec_digits n = (if n < 10 then [char_of (48 + n)]
                   else dec_digits (n div 10) @ [char_of (48 + n mod 10)])"
  by pat_completeness auto
termination
  by (relation "measure nat") auto

declare dec_digits.simps [simp del]

definition FormatInt :: "int \<Rightarrow> string" where
  "FormatInt i = (if i < 0 then CHR ''-'' # dec_digits (- i) else dec_digits i)"


section \<open>Configuration and collaborators\<close>

text \<open>The fields of \<open>conf.Configuration\<close> that the syncer reads. \<open>uint\<close> and
  \<open>uint64\<close> are 64-bit words.\<close>

record Configuration =
  LogLevel :: string
  Parallel :: int
  TargetDB :: int
  FilterKey :: "string list"
  FilterSlot :: "string list"
  Psync :: bool
  Metric :: bool
  SenderSize :: "64 word"
  SenderCount :: "64 word"
  SenderDelayChannelSize :: "64 word"

text \<open>
  Functions, tables and constants of other packages that the syncer calls and whose
  code is not part of the sources at hand. They are parameters of the model:
  \<open>base.AcceptDB\<close>, \<open>int(utils.KeyToSlot(key))\<close>, the command registry
  \<open>command.RedisCommands\<close> with \<open>command.GetMatchKeys\<close> (which returns the new
  argument vector and whether the command passes the key filter), and the constant
  \<open>utils.LogLevelAll\<close>. \<open>MaxAlloc\<close> is the number of bytes the Go runtime can
  allocate for the buffer of a channel.
\<close>

record 'ds externals =
  AcceptDB :: "32 word \<Rightarrow> bool"
  KeyToSlot :: "string \<Rightarrow> int"
  RedisCommands :: "string \<Rightarrow> 'ds option"
  GetMatchKeys :: "'ds \<Rightarrow> string list \<Rightarrow> string list \<Rightarrow> string list \<times> bool"
  LogLevelAll :: string
  MaxAlloc :: int

section \<open>Syncer state\<close>

record cmdDetail =
  Cmd :: string
  Args :: "string list"

record delayNode =
  t :: int
  id :: "64 word"

text \<open>What has been written to the target connection \<open>c\<close> of \<open>syncCommand\<close>.\<close>

datatype conn_op = Send string "string list" | Flush

text \<open>A record of the snapshot, as \<open>syncRDBFile\<close> reads it: database, key and the
  payload that \<open>utils.RestoreRdbEntry\<close> writes.\<close>

record rdbEntry =
  DB :: "32 word"
  Key :: string
  Payload :: string

text \<open>One restorer goroutine of \<open>syncRDBFile\<close>: its variable \<open>lastdb\<close> and what it has
  issued on its own target connection (\<open>utils.SelectDB\<close>, \<open>utils.RestoreRdbEntry\<close>).\<close>

datatype restore_op = SelectDB "32 word" | RestoreRdbEntry rdbEntry

record restorer =
  rlastdb :: "32 word"
  conn :: "restore_op list"

text \<open>
  The state of one \<open>dbSyncer\<close>: the fields of the struct that the code touches
  (\<open>waitFull\<close> counts how often the channel has been closed), the restorer
  goroutines, the variables \<open>sendId\<close>, \<open>recvId\<close>,
  \<open>sendMarkId\<close> shared by the goroutines of \<open>syncCommand\<close>, the local variables of
  the parser (\<open>lastdb\<close>, \<open>bypass\<close>), of the sender (\<open>noFlushCount\<close>,
  \<open>cachedSize\<close>) and of the receiver (\<open>node\<close>), the counters kept by
  \<open>metric.GetMetric(ds.id)\<close>, and the target connection. The 64-bit counters are
  words, so \<open>Incr\<close> wraps as in Go. The channel \<open>sendBuf\<close> is the list of queued
  commands, oldest first; its capacity only delays the parser and is not modelled.
  \<open>delayChannel\<close> is a list whose capacity is \<open>SenderDelayChannelSize\<close>.
  \<open>base.Status\<close> is a variable of the process, written by every syncer and by the
  goroutine that \<open>sendPSyncCmd\<close> starts; it is no part of the state of one syncer.
\<close>

record dbSyncer =
  waitFull :: nat
  workers :: "restorer list"
  nentry :: "64 word"
  ignore :: "64 word"
  forward :: "64 word"
  nbypass :: "64 word"
  delayChannel :: "delayNode list"
  sendBuf :: "cmdDetail list"
  sendId :: "64 word"
  recvId :: "64 word"
  sendMarkId :: "64 word"
  lastdb :: "32 word"
  bypass :: bool
  noFlushCount :: "64 word"
  cachedSize :: "64 word"
  node :: "delayNode option"
  target :: "conn_op list"
  PullCmdCount :: "64 word"
  BypassCmdCount :: "64 word"
  PushCmdCount :: "64 word"
  NetworkFlow :: "64 word"
  SuccessCmdCount :: "64 word"
  FailCmdCount :: "64 word"
  Delay :: "int list"

text \<open>The fatal events of the code (\<open>log.Panicf\<close>, \<open>log.PanicErrorf\<close>). A step that
  panics returns the event with the state reached at that point.\<close>

datatype fatal =
    DecodeFailed
  | ParseArgsFailed
  | SelectArgsLen nat
  | SelectParseDB string
  | SendToTargetFail
  | NetErrorWhileFlush
  | NetErrorWhileReceive
  | ErrorReply
  | ReceiveIdInvalid
  | NegativeWaitGroup
  | DivideByZero
  | MakeChanOutOfRange

type_synonym step_result = "(fatal \<times> dbSyncer) + dbSyncer"

section \<open>The command parser of \<open>syncCommand\<close>\<close>

text \<open>What \<open>redis.MustDecodeOpt\<close> followed by \<open>redis.ParseArgs\<close> delivers for one
  item of the stream: a decode failure, an argument error, or a verb with arguments.\<close>

datatype decoded = DecodeError | ArgsError | Command string "string list"

text \<open>The \<open>select\<close> branch: the argument count and \<open>strconv.Atoi\<close> are checked, then
  \<open>bypass = !base.AcceptDB(uint32(n))\<close>.\<close>

definition select_db :: "'ds externals \<Rightarrow> string list \<Rightarrow> fatal + bool" where
  "select_db env argv =
     (if length argv \<noteq> 1 then Inl (SelectArgsLen (length argv))
      else case Atoi (argv ! 0) of
             (n, err) \<Rightarrow> if err then Inl (SelectParseDB (argv ! 0))
                         else Inr (\<not> AcceptDB env (word_of_int n)))"

text \<open>The key filter: \<open>(new_argv, is_filter)\<close>.\<close>

definition filter_key :: "'ds externals \<Rightarrow> Configuration \<Rightarrow> string \<Rightarrow> string list
    \<Rightarrow> string list \<times> bool" where
  "filter_key env conf scmd argv =
     (if length (FilterKey conf) \<noteq> 0 then
        (case RedisCommands env scmd of
           Some d \<Rightarrow> if length argv > 0 then GetMatchKeys env d argv (FilterKey conf)
                     else (argv, True)
         | None \<Rightarrow> (argv, True))
      else (argv, True))"

definition bypass_cmd :: "bool \<Rightarrow> dbSyncer \<Rightarrow> dbSyncer" where
  "bypass_cmd with_metric st =
     (let st1 = st\<lparr>nbypass := nbypass st + 1\<rparr>
      in if with_metric then st1\<lparr>BypassCmdCount := BypassCmdCount st1 + 1\<rparr> else st1)"

text \<open>The tail of an iteration, from \<open>is_filter := false\<close> on.\<close>

definition emit_cmd :: "'ds externals \<Rightarrow> Configuration \<Rightarrow> bool \<Rightarrow> bool \<Rightarrow> string
    \<Rightarrow> string list \<Rightarrow> dbSyncer \<Rightarrow> dbSyncer" where
  "emit_cmd env conf isselect ignorecmd scmd argv st =
     (case filter_key env conf scmd argv of
        (new_argv, isfilter) \<Rightarrow>
          if bypass st \<or> ignorecmd \<or> \<not> isfilter then bypass_cmd False st
          else if isselect \<and> TargetDB conf \<noteq> - 1 then
            (if TargetDB conf \<noteq> sint (lastdb st) then
               (let st1 = st\<lparr>lastdb := word_of_int (TargetDB conf)\<rparr>
                in st1\<lparr>sendBuf := sendBuf st1 @
                     [\<lparr>Cmd = ''SELECT'', Args = [FormatInt (sint (lastdb st1))]\<rparr>]\<rparr>)
             else bypass_cmd True st)
          else st\<lparr>sendBuf := sendBuf st @ [\<lparr>Cmd = scmd, Args = new_argv\<rparr>]\<rparr>)"

text \<open>The block guarded by \<open>scmd != "ping"\<close>, up to its bypass test: a panic, or the
  new values of \<open>bypass\<close>, \<open>isselect\<close> and \<open>ignorecmd\<close>.\<close>

definition classify :: "'ds externals \<Rightarrow> dbSyncer \<Rightarrow> string \<Rightarrow> string list
    \<Rightarrow> fatal + (bool \<times> bool \<times> bool)" where
  "classify env st scmd argv =
     (if EqualFold scmd ''select'' then
        (case select_db env argv of
           Inl e \<Rightarrow> Inl e
         | Inr b \<Rightarrow> Inr (b, True, False))
      else if EqualFold scmd ''opinfo'' then Inr (bypass st, False, True)
      else Inr (bypass st, False, False))"

text \<open>The start of an iteration: the pull counter, and \<open>sendMarkId\<close> when the
  debug log is on.\<close>

definition count_pull :: "'ds externals \<Rightarrow> Configuration \<Rightarrow> dbSyncer \<Rightarrow> dbSyncer" where
  "count_pull env conf st0 =
     (let st1 = st0\<lparr>PullCmdCount := PullCmdCount st0 + 1\<rparr>
      in if LogLevel conf = LogLevelAll env
         then st1\<lparr>sendMarkId := sendMarkId st1 + 1\<rparr> else st1)"

text \<open>One iteration of the parser loop on a decoded verb and its arguments.\<close>

definition parse_cmd :: "'ds externals \<Rightarrow> Configuration \<Rightarrow> dbSyncer \<Rightarrow> string
    \<Rightarrow> string list \<Rightarrow> step_result" where
  "parse_cmd env conf st0 scmd argv =
     (let st = count_pull env conf st0
      in case (if scmd \<noteq> ''ping'' then classify env st scmd argv
               else Inr (bypass st, False, False)) of
           Inl e \<Rightarrow> Inl (e, st)
         | Inr (bp, isselect, ignorecmd) \<Rightarrow>
             (let st2 = st\<lparr>bypass := bp\<rparr>
              in if scmd \<noteq> ''ping'' \<and> (bp \<or> ignorecmd) then Inr (bypass_cmd True st2)
                 else Inr (emit_cmd env conf isselect ignorecmd scmd argv st2)))"

definition parse_step :: "'ds externals \<Rightarrow> Configuration \<Rightarrow> dbSyncer \<Rightarrow> decoded
    \<Rightarrow> step_result" where
  "parse_step env conf st r =
     (case r of
        DecodeError \<Rightarrow> Inl (DecodeFailed, st)
      | ArgsError \<Rightarrow> Inl (ParseArgsFailed, st)
      | Command scmd argv \<Rightarrow> parse_cmd env conf st scmd argv)"

text \<open>The parser loop over the items of the stream; it stops at the first panic.\<close>

fun parser :: "'ds externals \<Rightarrow> Configuration \<Rightarrow> dbSyncer \<Rightarrow> decoded list \<Rightarrow> step_result" where
  "parser env conf st [] = Inr st"
| "parser env conf st (r # rs) =
     (case parse_step env conf st r of
        Inl e \<Rightarrow> Inl e
      | Inr st' \<Rightarrow> parser env conf st' rs)"


section \<open>The sender of \<open>syncCommand\<close> and \<open>addDelayChan\<close>\<close>

text \<open>The condition of \<open>addDelayChan\<close> on \<open>used\<close> and the \<open>int64\<close> id. Go's \<open>%\<close>
  truncates towards zero: \<open>smod\<close> on the signed value.\<close>

definition sample_due :: "int \<Rightarrow> 64 word \<Rightarrow> bool" where
  "sample_due used i =
     (used \<ge> 4096 \<or>
      used \<ge> 1024 \<and> sint i smod 10 = 0 \<or>
      used \<ge> 128 \<and> sint i smod 100 = 0 \<or>
      sint i smod 1000 = 0)"

text \<open>\<open>addDelayChan(id)\<close> at time \<open>now\<close>. The send in the \<open>select\<close> with a
  \<open>default\<close> branch succeeds when the channel has room and is skipped otherwise.\<close>

definition addDelayChan :: "Configuration \<Rightarrow> int \<Rightarrow> 64 word \<Rightarrow> dbSyncer \<Rightarrow> dbSyncer" where
  "addDelayChan conf now i st =
     (let used = uint (SenderDelayChannelSize conf) - int (length (delayChannel st))
      in if sample_due used i then
           (if int (length (delayChannel st)) < uint (SenderDelayChannelSize conf)
            then st\<lparr>delayChannel := delayChannel st @ [\<lparr>t = now, id = i\<rparr>]\<rparr>
            else st)
         else st)"

text \<open>\<open>length\<close> as the sender computes it: the bytes of the verb and of the arguments.\<close>

definition cmd_length :: "cmdDetail \<Rightarrow> int" where
  "cmd_length item = int (length (Cmd item)) + (\<Sum>a\<leftarrow>Args item. int (length a))"

text \<open>
  One iteration of the sender loop: it takes the oldest command of \<open>sendBuf\<close> (with
  an empty buffer it waits, and the state is unchanged). \<open>send_err\<close> says that
  \<open>c.Send\<close> returned an error, \<open>flush_err\<close> that \<open>utils.CheckHandleNetError\<close> holds
  for the result of \<open>c.Flush\<close>, \<open>now\<close> is the clock.
\<close>

definition send_cmd :: "Configuration \<Rightarrow> bool \<Rightarrow> bool \<Rightarrow> int \<Rightarrow> dbSyncer \<Rightarrow> step_result" where
  "send_cmd conf send_err flush_err now st =
     (case sendBuf st of
        [] \<Rightarrow> Inr st
      | item # rest \<Rightarrow>
          (let st0 = st\<lparr>sendBuf := rest\<rparr>
           in if send_err then Inl (SendToTargetFail, st0)
              else
                (let st1 = st0\<lparr>target := target st0 @ [Send (Cmd item) (Args item)],
                              noFlushCount := noFlushCount st0 + 1,
                              forward := forward st0 + 1,
                              PushCmdCount := PushCmdCount st0 + 1,
                              NetworkFlow := NetworkFlow st0 + word_of_int (cmd_length item),
                              sendId := sendId st0 + 1\<rparr>;
                     st2 = (if Metric conf then addDelayChan conf now (sendId st1) st1 else st1)
                 in if noFlushCount st2 > SenderCount conf \<or> cachedSize st2 > SenderSize conf
                       \<or> length (sendBuf st2) = 0
                    then
                      (let st3 = st2\<lparr>target := target st2 @ [Flush],
                                    noFlushCount := 0, cachedSize := 0\<rparr>
                       in if flush_err then Inl (NetErrorWhileFlush, st3) else Inr st3)
                    else Inr st2)))"

section \<open>The receiver of \<open>syncCommand\<close>\<close>

text \<open>What \<open>c.Receive()\<close> returns: a reply without error, or an error together with
  the verdict of \<open>utils.CheckHandleNetError\<close> on it.\<close>

datatype reply = ReplyOk | ReplyErr bool

text \<open>The non-blocking read of the delay channel into \<open>node\<close>.\<close>

definition fetch_node :: "dbSyncer \<Rightarrow> dbSyncer" where
  "fetch_node st =
     (case node st of
        Some n \<Rightarrow> st
      | None \<Rightarrow>
          (case delayChannel st of
             [] \<Rightarrow> st
           | n # q \<Rightarrow> st\<lparr>node := Some n, delayChannel := q\<rparr>))"

text \<open>The comparison of \<open>node.id\<close> with the receive id; the delay is
  \<open>uint64(time.Now().Sub(node.t).Nanoseconds()) / 1000000\<close>.\<close>

definition check_node :: "int \<Rightarrow> 64 word \<Rightarrow> dbSyncer \<Rightarrow> step_result" where
  "check_node now i st =
     (case node st of
        None \<Rightarrow> Inr st
      | Some n \<Rightarrow>
          if id n = i then
            Inr (st\<lparr>Delay := Delay st @ [uint (word_of_int (now - t n) :: 64 word) div 1000000],
                    node := None\<rparr>)
          else if sint (id n) < sint i then Inl (ReceiveIdInvalid, st)
          else Inr st)"

text \<open>One iteration of the receiver loop on the result of \<open>c.Receive()\<close>.\<close>

definition receive_reply :: "Configuration \<Rightarrow> reply \<Rightarrow> int \<Rightarrow> dbSyncer \<Rightarrow> step_result" where
  "receive_reply conf r now st0 =
     (let st = st0\<lparr>recvId := recvId st0 + 1\<rparr>
      in if Metric conf = False then Inr st
         else
           (case r of
              ReplyOk \<Rightarrow>
                check_node now (recvId st)
                  (fetch_node (st\<lparr>SuccessCmdCount := SuccessCmdCount st + 1\<rparr>))
            | ReplyErr neterr \<Rightarrow>
                Inl (if neterr then NetErrorWhileReceive else ErrorReply,
                     st\<lparr>FailCmdCount := FailCmdCount st + 1\<rparr>)))"


section \<open>The restorers of \<open>syncRDBFile\<close>\<close>

text \<open>The database selection of a restorer for an accepted record.\<close>

definition select_target :: "Configuration \<Rightarrow> rdbEntry \<Rightarrow> restorer \<Rightarrow> restorer" where
  "select_target conf e w =
     (if TargetDB conf \<noteq> - 1 then
        (if TargetDB conf \<noteq> uint (rlastdb w)
         then w\<lparr>rlastdb := word_of_int (TargetDB conf),
                conn := conn w @ [SelectDB (word_of_int (TargetDB conf))]\<rparr>
         else w)
      else
        (if DB e \<noteq> rlastdb w
         then w\<lparr>rlastdb := DB e, conn := conn w @ [SelectDB (DB e)]\<rparr>
         else w))"

text \<open>The loop over \<open>FilterKey\<close>: restore at the first prefix of the key and stop.\<close>

fun restore_by_key :: "string list \<Rightarrow> rdbEntry \<Rightarrow> restorer \<Rightarrow> restorer" where
  "restore_by_key [] e w = w"
| "restore_by_key (p # ps) e w =
     (if HasPrefix (Key e) p then w\<lparr>conn := conn w @ [RestoreRdbEntry e]\<rparr>
      else restore_by_key ps e w)"

text \<open>The loop over \<open>FilterSlot\<close>; the error of \<open>strconv.Atoi\<close> is dropped.\<close>

fun restore_by_slot :: "'ds externals \<Rightarrow> string list \<Rightarrow> rdbEntry \<Rightarrow> restorer \<Rightarrow> restorer" where
  "restore_by_slot env [] e w = w"
| "restore_by_slot env (slot # slots) e w =
     (if KeyToSlot env (Key e) = fst (Atoi slot)
      then w\<lparr>conn := conn w @ [RestoreRdbEntry e]\<rparr>
      else restore_by_slot env slots e w)"

definition restore_filtered :: "'ds externals \<Rightarrow> Configuration \<Rightarrow> rdbEntry \<Rightarrow> restorer
    \<Rightarrow> restorer" where
  "restore_filtered env conf e w =
     (if length (FilterKey conf) \<noteq> 0 then restore_by_key (FilterKey conf) e w
      else if length (FilterSlot conf) > 0 then restore_by_slot env (FilterSlot conf) e w
      else w\<lparr>conn := conn w @ [RestoreRdbEntry e]\<rparr>)"

text \<open>The body of \<open>for e := range pipe\<close> in restorer \<open>k\<close>.\<close>

definition restore_entry :: "'ds externals \<Rightarrow> Configuration \<Rightarrow> nat \<Rightarrow> rdbEntry
    \<Rightarrow> dbSyncer \<Rightarrow> dbSyncer" where
  "restore_entry env conf k e st =
     (if \<not> AcceptDB env (DB e) then st\<lparr>ignore := ignore st + 1\<rparr>
      else st\<lparr>nentry := nentry st + 1,
              workers := (workers st)
                [k := restore_filtered env conf e (select_target conf e (workers st ! k))]\<rparr>)"

text \<open>
  A run of the restorers is the list of records in the order in which they leave the
  pipe, each with the index of the restorer that receives it. A record for an index
  that is no restorer stays in the pipe.
\<close>

fun restore_all :: "'ds externals \<Rightarrow> Configuration \<Rightarrow> (nat \<times> rdbEntry) list \<Rightarrow> dbSyncer
    \<Rightarrow> dbSyncer list" where
  "restore_all env conf [] st = []"
| "restore_all env conf ((k, e) # es) st =
     (let st' = (if k < length (workers st) then restore_entry env conf k e st else st)
      in st' # restore_all env conf es st')"

text \<open>
  \<open>syncRDBFile\<close>: the states after each record, and a panic if there is one.
  \<open>wg.Add\<close> panics on a negative \<open>Parallel\<close>; the progress report divides by
  \<open>nsize\<close>.
\<close>

definition syncRDBFile :: "'ds externals \<Rightarrow> Configuration \<Rightarrow> 64 word
    \<Rightarrow> (nat \<times> rdbEntry) list \<Rightarrow> dbSyncer \<Rightarrow> dbSyncer list \<times> fatal option" where
  "syncRDBFile env conf nsize es st =
     (if Parallel conf < 0 then ([], Some NegativeWaitGroup)
      else
        (let st0 = st\<lparr>workers := replicate (nat (Parallel conf)) \<lparr>rlastdb = 0, conn = []\<rparr>\<rparr>;
             sts = st0 # restore_all env conf es st0
         in (sts, if nsize = 0 then Some DivideByZero else None)))"

section \<open>The handshake\<close>

text \<open>
  What the loops of \<open>sendSyncCmd\<close> and \<open>sendPSyncCmd\<close> see: a size on the channel
  \<open>wait\<close>, or the one-second timer. The functions consume a finite sequence of such
  events; \<open>None\<close> says that the loop has not returned by the end of the sequence.
\<close>

datatype wait_event = Size "64 word" | Second

fun sendSyncCmd :: "wait_event list \<Rightarrow> 64 word option" where
  "sendSyncCmd [] = None"
| "sendSyncCmd (Size nsize # evs) = (if nsize = 0 then sendSyncCmd evs else Some nsize)"
| "sendSyncCmd (Second # evs) = sendSyncCmd evs"

text \<open>The loop \<open>for nsize == 0\<close> of \<open>sendPSyncCmd\<close>, from \<open>nsize\<close>.\<close>

fun sendPSyncCmd_wait :: "64 word \<Rightarrow> wait_event list \<Rightarrow> 64 word option" where
  "sendPSyncCmd_wait nsize evs =
     (if nsize = 0 then
        (case evs of
           [] \<Rightarrow> None
         | Size n # evs' \<Rightarrow> sendPSyncCmd_wait n evs'
         | Second # evs' \<Rightarrow> sendPSyncCmd_wait nsize evs')
      else Some nsize)"

declare sendPSyncCmd_wait.simps [simp del]

definition sendPSyncCmd :: "wait_event list \<Rightarrow> 64 word option" where
  "sendPSyncCmd evs = sendPSyncCmd_wait 0 evs"

section \<open>\<open>syncCommand\<close> and \<open>sync\<close>\<close>

text \<open>
  The goroutines of \<open>syncCommand\<close> run concurrently. A run is a sequence of turns:
  the parser handles one decoded item, the sender one queued command, the receiver one
  result of \<open>c.Receive()\<close>. Every interleaving of the three loops is such a sequence.
\<close>

datatype turn = ParserTurn decoded | SenderTurn bool bool int | ReceiverTurn reply int

definition pipeline_step :: "'ds externals \<Rightarrow> Configuration \<Rightarrow> turn \<Rightarrow> dbSyncer
    \<Rightarrow> step_result" where
  "pipeline_step env conf tn st =
     (case tn of
        ParserTurn r \<Rightarrow> parse_step env conf st r
      | SenderTurn send_err flush_err now \<Rightarrow> send_cmd conf send_err flush_err now st
      | ReceiverTurn r now \<Rightarrow> receive_reply conf r now st)"

text \<open>The states after each turn; a panic ends the run.\<close>

fun pipeline :: "'ds externals \<Rightarrow> Configuration \<Rightarrow> turn list \<Rightarrow> dbSyncer
    \<Rightarrow> dbSyncer list \<times> fatal option" where
  "pipeline env conf [] st = ([], None)"
| "pipeline env conf (tn # tns) st =
     (case pipeline_step env conf tn st of
        Inl (e, st') \<Rightarrow> ([st'], Some e)
      | Inr st' \<Rightarrow> (case pipeline env conf tns st' of (sts, r) \<Rightarrow> (st' # sts, r)))"

text \<open>
  \<open>make(chan T, n)\<close> for an \<open>n\<close> of type \<open>uint\<close> and elements of \<open>elemsize\<close> bytes:
  the runtime panics when \<open>int(n)\<close> is negative, or when the size of the buffer
  overflows or is more than it can allocate. A \<open>cmdDetail\<close> has 40 bytes (a string and
  a slice), a \<open>*delayNode\<close> has 8.
\<close>

definition makechan_ok :: "'ds externals \<Rightarrow> int \<Rightarrow> 64 word \<Rightarrow> bool" where
  "makechan_ok env elemsize n =
     (uint n < 2 ^ 63 \<and> elemsize * uint n < 2 ^ 64 \<and> elemsize * uint n \<le> MaxAlloc env)"

text \<open>The start of \<open>syncCommand\<close>: the channels are made and the variables of the
  goroutines are declared.\<close>

definition syncCommand_init :: "dbSyncer \<Rightarrow> dbSyncer" where
  "syncCommand_init st =
     st\<lparr>sendBuf := [], delayChannel := [], sendId := 0, recvId := 0, sendMarkId := 0,
        node := None, lastdb := 0, bypass := False, noFlushCount := 0, cachedSize := 0\<rparr>"

definition syncCommand :: "'ds externals \<Rightarrow> Configuration \<Rightarrow> turn list \<Rightarrow> dbSyncer
    \<Rightarrow> dbSyncer list \<times> fatal option" where
  "syncCommand env conf tns st =
     (if makechan_ok env 40 (SenderCount conf) \<and>
         makechan_ok env 8 (SenderDelayChannelSize conf)
      then
        (let st0 = syncCommand_init st
         in case pipeline env conf tns st0 of (sts, r) \<Rightarrow> (st0 # sts, r))
      else ([], Some MakeChanOutOfRange))"

text \<open>\<open>NewDbSyncer\<close>, with the counters of the metric at zero.\<close>

definition NewDbSyncer :: dbSyncer where
  "NewDbSyncer =
     \<lparr>waitFull = 0, workers = [], nentry = 0, ignore = 0, forward = 0,
      nbypass = 0, delayChannel = [], sendBuf = [], sendId = 0, recvId = 0, sendMarkId = 0,
      lastdb = 0, bypass = False, noFlushCount = 0, cachedSize = 0, node = None,
      target = [], PullCmdCount = 0, BypassCmdCount = 0, PushCmdCount = 0,
      NetworkFlow = 0, SuccessCmdCount = 0, FailCmdCount = 0, Delay = []\<rparr>"

text \<open>\<open>close(ds.waitFull)\<close>.\<close>

definition close_waitFull :: "dbSyncer \<Rightarrow> dbSyncer" where
  "close_waitFull st = st\<lparr>waitFull := waitFull st + 1\<rparr>"

definition handshake :: "Configuration \<Rightarrow> wait_event list \<Rightarrow> 64 word option" where
  "handshake conf evs = (if Psync conf then sendPSyncCmd evs else sendSyncCmd evs)"

text \<open>
  \<open>sync\<close>: the handshake, the snapshot, \<open>close(ds.waitFull)\<close>, the commands. The
  result is the sequence of states the syncer goes through, and the panic that ended
  the run, if any. A handshake that has not returned leaves the syncer in its first
  state. The goroutine of \<open>sendPSyncCmd\<close> that copies the stream of the source into
  the pipe is present through what the restorers and the parser read; the swap file,
  the heartbeat and the assignments to \<open>base.Status\<close> do not touch the state.
\<close>

definition sync :: "'ds externals \<Rightarrow> Configuration \<Rightarrow> wait_event list
    \<Rightarrow> (nat \<times> rdbEntry) list \<Rightarrow> turn list \<Rightarrow> dbSyncer list \<times> fatal option" where
  "sync env conf evs es tns =
     (let s0 = NewDbSyncer
      in case handshake conf evs of
           None \<Rightarrow> ([s0], None)
         | Some nsize \<Rightarrow>
             (case syncRDBFile env conf nsize es s0 of
                (sts, Some e) \<Rightarrow> (s0 # sts, Some e)
              | (sts, None) \<Rightarrow>
                  (let s1 = close_waitFull (last (s0 # sts))
                   in case syncCommand env conf tns s1 of
                        (sts', r) \<Rightarrow> (s0 # sts @ [s1] @ sts', r))))"

section \<open>Auxiliary definitions for the properties\<close>

text \<open>The state a step ends in, whether it panics or not.\<close>

definition state_of :: "step_result \<Rightarrow> dbSyncer" where
  "state_of r = (case r of Inl (e, st) \<Rightarrow> st | Inr st \<Rightarrow> st)"

text \<open>Restorer \<open>k\<close> has issued a restore of \<open>e\<close> between the states \<open>st\<close> and \<open>st'\<close>.\<close>

definition restored :: "nat \<Rightarrow> rdbEntry \<Rightarrow> dbSyncer \<Rightarrow> dbSyncer \<Rightarrow> bool" where
  "restored k e st st' =
     (RestoreRdbEntry e \<in> set (drop (length (conn (workers st ! k))) (conn (workers st' ! k))))"

text \<open>The queued commands whose verb is \<open>select\<close>.\<close>

definition selects :: "cmdDetail list \<Rightarrow> cmdDetail list" where
  "selects q = filter (\<lambda>c. EqualFold (Cmd c) ''select'') q"

text \<open>The invariant of the parser under a target database: at most one \<open>select\<close> has
  been queued, and once one has been, \<open>lastdb\<close> is the target database.\<close>

definition sel_inv :: "Configuration \<Rightarrow> dbSyncer \<Rightarrow> bool" where
  "sel_inv conf st = (length (selects (sendBuf st)) \<le> 1 \<and>
     (selects (sendBuf st) = [] \<or> sint (lastdb st) = TargetDB conf))"

text \<open>The spec's notion of a record matching the key-prefix filter and the slot filter;
  \<open>passes_filter\<close> takes them in the order of the code.\<close>

definition matches_key :: "string list \<Rightarrow> rdbEntry \<Rightarrow> bool" where
  "matches_key F e = (\<exists>p \<in> set F. prefix p (Key e))"

definition matches_slot :: "'ds externals \<Rightarrow> string list \<Rightarrow> rdbEntry \<Rightarrow> bool" where
  "matches_slot env S e = (\<exists>s \<in> set S. KeyToSlot env (Key e) = fst (Atoi s))"

definition passes_filter :: "'ds externals \<Rightarrow> Configuration \<Rightarrow> rdbEntry \<Rightarrow> bool" where
  "passes_filter env conf e =
     (if FilterKey conf \<noteq> [] then matches_key (FilterKey conf) e
      else if FilterSlot conf \<noteq> [] then matches_slot env (FilterSlot conf) e
      else True)"

text \<open>The state of \<open>syncRDBFile\<close> in which the restorers have taken every record of
  the run \<open>es\<close>.\<close>

definition snapshot_end :: "'ds externals \<Rightarrow> Configuration \<Rightarrow> (nat \<times> rdbEntry) list
    \<Rightarrow> dbSyncer" where
  "snapshot_end env conf es =
     (let st0 = NewDbSyncer\<lparr>workers := replicate (nat (Parallel conf)) \<lparr>rlastdb = 0, conn = []\<rparr>\<rparr>
      in last (st0 # restore_all env conf es st0))"

text \<open>
  The two phases of a syncer. In the snapshot phase \<open>waitFull\<close> has not been closed,
  and no command has been queued in \<open>sendBuf\<close> or sent on the target connection of
  \<open>syncCommand\<close>. In the stream phase \<open>waitFull\<close> has been closed exactly once, and
  the restorers and their counters are as \<open>fin\<close> has them: nothing is restored any more.
  \<open>restorer_view\<close> is the part of the state that \<open>close(ds.waitFull)\<close> and the
  restorers write.
\<close>

definition restorer_view :: "dbSyncer \<Rightarrow> nat \<times> restorer list \<times> 64 word \<times> 64 word" where
  "restorer_view s = (waitFull s, workers s, nentry s, ignore s)"

definition snapshot_phase :: "dbSyncer \<Rightarrow> bool" where
  "snapshot_phase s = (waitFull s = 0 \<and> sendBuf s = [] \<and> target s = [] \<and> forward s = 0)"

definition stream_phase :: "dbSyncer \<Rightarrow> dbSyncer \<Rightarrow> bool" where
  "stream_phase fin s =
     (waitFull s = 1 \<and> workers s = workers fin \<and> nentry s = nentry fin \<and>
      ignore s = ignore fin)"

text \<open>The events on which the handshake keeps waiting.\<close>

definition keepalive :: "wait_event \<Rightarrow> bool" where
  "keepalive ev = (ev = Size 0 \<or> ev = Second)"

text \<open>
  Concrete collaborators and a concrete configuration: databases 0 to 3 are accepted,
  the command registry is empty, no filter and no target database are configured,
  the runtime allocates up to \<open>2 ^ 48\<close> bytes.
\<close>

definition example_env :: "unit externals" where
  "example_env = \<lparr>AcceptDB = (\<lambda>d. d < 4), KeyToSlot = (\<lambda>k. int (length k)),
     RedisCommands = (\<lambda>c. None), GetMatchKeys = (\<lambda>d argv f. (argv, True)),
     LogLevelAll = ''all'', MaxAlloc = 2 ^ 48\<rparr>"

definition example_conf :: Configuration where
  "example_conf = \<lparr>LogLevel = ''info'', Parallel = 1, TargetDB = - 1, FilterKey = [],
     FilterSlot = [], Psync = False, Metric = True, SenderSize = 0, SenderCount = 10,
     SenderDelayChannelSize = 8\<rparr>"

text \<open>A syncer with one restorer.\<close>

definition one_worker :: dbSyncer where
  "one_worker = NewDbSyncer\<lparr>workers := [\<lparr>rlastdb = 0, conn = []\<rparr>]\<rparr>"

section \<open>Properties of the command parser\<close>

lemma not_select_ping: "\<not> EqualFold ''ping'' ''select''"
  by (simp add: EqualFold_def lower_ascii_def char_of_eq_iff)

lemma select_SELECT: "EqualFold ''SELECT'' ''select''"
  by (simp add: EqualFold_def lower_ascii_def char_of_eq_iff)

lemma select_db_wrong_count:
  "length argv \<noteq> 1 \<Longrightarrow> select_db env argv = Inl (SelectArgsLen (length argv))"
  by (simp add: select_db_def)

lemma select_db_unparseable:
  "snd (Atoi a) \<Longrightarrow> select_db env [a] = Inl (SelectParseDB a)"
  by (cases "Atoi a") (simp add: select_db_def)

lemma bypass_cmd_simps:
  "sendBuf (bypass_cmd m st) = sendBuf st"
  "lastdb (bypass_cmd m st) = lastdb st"
  "nbypass (bypass_cmd m st) = nbypass st + 1"
  "bypass (bypass_cmd m st) = bypass st"
  by (simp_all add: bypass_cmd_def Let_def)

lemma emit_cmd_cases:
  "(sendBuf (emit_cmd env conf isselect ignorecmd scmd argv st) = sendBuf st \<and>
    lastdb (emit_cmd env conf isselect ignorecmd scmd argv st) = lastdb st \<and>
    nbypass (emit_cmd env conf isselect ignorecmd scmd argv st) = nbypass st + 1 \<and>
    (bypass st \<or> ignorecmd \<or> \<not> snd (filter_key env conf scmd argv) \<or>
       isselect \<and> TargetDB conf \<noteq> - 1 \<and> TargetDB conf = sint (lastdb st))) \<or>
   (isselect \<and> TargetDB conf \<noteq> - 1 \<and> TargetDB conf \<noteq> sint (lastdb st) \<and>
    \<not> bypass st \<and> \<not> ignorecmd \<and> snd (filter_key env conf scmd argv) \<and>
    lastdb (emit_cmd env conf isselect ignorecmd scmd argv st) = word_of_int (TargetDB conf) \<and>
    nbypass (emit_cmd env conf isselect ignorecmd scmd argv st) = nbypass st \<and>
    sendBuf (emit_cmd env conf isselect ignorecmd scmd argv st) =
      sendBuf st @ [\<lparr>Cmd = ''SELECT'',
                      Args = [FormatInt (sint (word_of_int (TargetDB conf) :: 32 word))]\<rparr>]) \<or>
   (\<not> (isselect \<and> TargetDB conf \<noteq> - 1) \<and> \<not> bypass st \<and> \<not> ignorecmd \<and>
    snd (filter_key env conf scmd argv) \<and>
    lastdb (emit_cmd env conf isselect ignorecmd scmd argv st) = lastdb st \<and>
    nbypass (emit_cmd env conf isselect ignorecmd scmd argv st) = nbypass st \<and>
    sendBuf (emit_cmd env conf isselect ignorecmd scmd argv st) =
      sendBuf st @ [\<lparr>Cmd = scmd, Args = fst (filter_key env conf scmd argv)\<rparr>])"
  by (cases "filter_key env conf scmd argv")
     (simp add: emit_cmd_def bypass_cmd_simps Let_def)

lemma count_pull_simps:
  "sendBuf (count_pull env conf st) = sendBuf st"
  "lastdb (count_pull env conf st) = lastdb st"
  "nbypass (count_pull env conf st) = nbypass st"
  "bypass (count_pull env conf st) = bypass st"
  "BypassCmdCount (count_pull env conf st) = BypassCmdCount st"
  by (simp_all add: count_pull_def Let_def)

lemma bypass_update_True: "bypass st \<Longrightarrow> st\<lparr>bypass := True\<rparr> = st"
  by (cases st) simp

lemma bypass_update_False: "\<not> bypass st \<Longrightarrow> st\<lparr>bypass := False\<rparr> = st"
  by (cases st) simp

lemma parse_cmd_ping:
  "parse_cmd env conf st0 ''ping'' argv =
     Inr (emit_cmd env conf False False ''ping'' argv (count_pull env conf st0))"
  by (simp add: parse_cmd_def count_pull_def Let_def)

lemma parse_cmd_select:
  "EqualFold scmd ''select'' \<Longrightarrow> select_db env argv = Inr b \<Longrightarrow>
   parse_cmd env conf st0 scmd argv =
     (if b then Inr (bypass_cmd True ((count_pull env conf st0)\<lparr>bypass := True\<rparr>))
      else Inr (emit_cmd env conf True False scmd argv ((count_pull env conf st0)\<lparr>bypass := False\<rparr>)))"
  using not_select_ping by (auto simp add: parse_cmd_def count_pull_def classify_def Let_def)

lemma parse_cmd_select_fatal:
  "EqualFold scmd ''select'' \<Longrightarrow> select_db env argv = Inl e \<Longrightarrow>
   parse_cmd env conf st0 scmd argv = Inl (e, count_pull env conf st0)"
  using not_select_ping by (auto simp add: parse_cmd_def count_pull_def classify_def Let_def)

lemma parse_cmd_other:
  "\<not> EqualFold scmd ''select'' \<Longrightarrow> scmd \<noteq> ''ping'' \<Longrightarrow>
   parse_cmd env conf st0 scmd argv =
     (if EqualFold scmd ''opinfo'' \<or> bypass st0 then Inr (bypass_cmd True (count_pull env conf st0))
      else Inr (emit_cmd env conf False False scmd argv (count_pull env conf st0)))"
  by (cases "LogLevel conf = LogLevelAll env"; cases "bypass st0")
     (simp_all add: parse_cmd_def count_pull_def classify_def Let_def bypass_update_True
        bypass_update_False)

lemmas parser_eval = parse_step_def parse_cmd_def count_pull_def classify_def select_db_def
     EqualFold_def lower_ascii_def char_of_eq_iff Atoi_def is_digit_def bypass_cmd_def emit_cmd_def filter_key_def
     FormatInt_def dec_digits.simps state_of_def syncCommand_init_def NewDbSyncer_def
     example_env_def example_conf_def selects_def

text \<open>
  C10. A command whose verb is \<open>select\<close> up to case, and whose argument count is not 1
  or whose single argument \<open>strconv.Atoi\<close> rejects, makes the parser panic: the
  iteration ends in a fatal event, with nothing queued and nothing counted as bypassed.
\<close>

theorem select_malformed_is_fatal:
  assumes "EqualFold scmd ''select''"
    and "length argv \<noteq> 1 \<or> (\<exists>a. argv = [a] \<and> snd (Atoi a))"
  shows "\<exists>e st'. parse_cmd env conf st scmd argv = Inl (e, st') \<and>
           (e = SelectArgsLen (length argv) \<or> (\<exists>a. argv = [a] \<and> e = SelectParseDB a)) \<and>
           sendBuf st' = sendBuf st \<and> nbypass st' = nbypass st \<and>
           BypassCmdCount st' = BypassCmdCount st"
proof -
  from assms(2) obtain e where e: "select_db env argv = Inl e"
    and k: "e = SelectArgsLen (length argv) \<or> (\<exists>a. argv = [a] \<and> e = SelectParseDB a)"
    using select_db_wrong_count select_db_unparseable by (cases "length argv = 1") fastforce+
  show ?thesis
    using k by (simp add: parse_cmd_select_fatal [OF assms(1) e] count_pull_simps)
qed

theorem select_malformed_is_fatal_witness:
  "EqualFold ''SELECT'' ''select'' \<and> snd (Atoi ''db1'') \<and>
   (\<exists>e st'. parse_cmd example_env example_conf NewDbSyncer ''SELECT'' [''db1''] = Inl (e, st') \<and>
      sendBuf st' = sendBuf NewDbSyncer \<and> nbypass st' = nbypass NewDbSyncer)"
proof -
  have a: "EqualFold ''SELECT'' ''select''"
    by (rule select_SELECT)
  have b: "snd (Atoi ''db1'')"
    by (simp add: Atoi_def is_digit_def)
  have c: "length [''db1''] \<noteq> 1 \<or> (\<exists>a. [''db1''] = [a] \<and> snd (Atoi a))"
    using b by simp
  show ?thesis
    using a b select_malformed_is_fatal [OF a c, of example_env example_conf NewDbSyncer]
    by blast
qed

text \<open>
  For \<open>ping\<close> the block guarded by \<open>scmd != "ping"\<close> is skipped, but the test
  \<open>bypass || ignorecmd || !is_filter\<close> after the key filter applies to it: in bypass
  state a \<open>ping\<close> is counted in \<open>nbypass\<close> and not queued.
\<close>

lemma ping_general:
  "\<exists>st'. parse_cmd env conf (st\<lparr>bypass := True\<rparr>) ''ping'' argv = Inr st' \<and>
     sendBuf st' = sendBuf st \<and> nbypass st' = nbypass st + 1"
  using emit_cmd_cases [of env conf False False "''ping''" argv "count_pull env conf (st\<lparr>bypass := True\<rparr>)"]
  by (auto simp add: parse_cmd_ping count_pull_simps)

text \<open>
  C1, at the input \<open>select 5\<close>, \<open>ping\<close> with database 5 not accepted: the parser
  ends in bypass state with an empty send buffer, and both commands are counted in
  \<open>nbypass\<close>. The \<open>ping\<close> is not passed through.
\<close>

theorem ping_bypassed:
  "\<exists>st. parser example_env example_conf (syncCommand_init NewDbSyncer)
          [Command ''select'' [''5''], Command ''ping'' []] = Inr st \<and>
        bypass st \<and> sendBuf st = [] \<and> nbypass st = 2"
  by (simp add: parser_eval)

section \<open>Select coalescing\<close>

lemma sint_int32:
  "- (2 ^ 31) \<le> x \<Longrightarrow> x < 2 ^ 31 \<Longrightarrow> sint (word_of_int x :: 32 word) = x"
  by (simp add: sint_sbintrunc' signed_take_bit_int_eq_self)

lemma selects_snoc:
  "selects (q @ [c]) = selects q @ (if EqualFold (Cmd c) ''select'' then [c] else [])"
  by (simp add: selects_def)

lemma sel_inv_same:
  "sel_inv conf st \<Longrightarrow> sendBuf st' = sendBuf st \<Longrightarrow> lastdb st' = lastdb st \<Longrightarrow> sel_inv conf st'"
  by (simp add: sel_inv_def)

lemma sel_inv_other:
  "sel_inv conf st \<Longrightarrow> \<not> EqualFold scmd ''select'' \<Longrightarrow>
   sendBuf st' = sendBuf st @ [\<lparr>Cmd = scmd, Args = a\<rparr>] \<Longrightarrow> lastdb st' = lastdb st \<Longrightarrow>
   sel_inv conf st'"
  by (simp add: sel_inv_def selects_snoc)

lemma sel_inv_select:
  assumes "sel_inv conf st" "TargetDB conf \<noteq> sint (lastdb st)"
    and "- (2 ^ 31) \<le> TargetDB conf" "TargetDB conf < 2 ^ 31"
    and "sendBuf st' = sendBuf st @ [\<lparr>Cmd = ''SELECT'', Args = a\<rparr>]"
    and "lastdb st' = word_of_int (TargetDB conf)"
  shows "sel_inv conf st'"
  using assms select_SELECT by (auto simp add: sel_inv_def selects_snoc sint_int32)

lemma sel_inv_emit:
  assumes "sel_inv conf st" "TargetDB conf \<noteq> - 1"
    and "- (2 ^ 31) \<le> TargetDB conf" "TargetDB conf < 2 ^ 31"
    and "isselect \<or> \<not> EqualFold scmd ''select''"
  shows "sel_inv conf (emit_cmd env conf isselect ignorecmd scmd argv st)"
  using emit_cmd_cases [of env conf isselect ignorecmd scmd argv st] assms
  by (elim disjE conjE) (blast intro: sel_inv_same sel_inv_select sel_inv_other)+

lemma sel_inv_parse_cmd:
  assumes "sel_inv conf st" "TargetDB conf \<noteq> - 1"
    and "- (2 ^ 31) \<le> TargetDB conf" "TargetDB conf < 2 ^ 31"
  shows "sel_inv conf (state_of (parse_cmd env conf st scmd argv))"
proof -
  let ?c = "count_pull env conf st"
  have c: "sel_inv conf ?c"
    using assms(1) by (rule sel_inv_same) (simp_all add: count_pull_simps)
  have cb: "sel_inv conf (?c\<lparr>bypass := b\<rparr>)" for b
    using c by (rule sel_inv_same) simp_all
  have bc: "sel_inv conf (bypass_cmd m s)" if "sel_inv conf s" for m s
    using that by (rule sel_inv_same) (simp_all add: bypass_cmd_simps)
  show ?thesis
  proof (cases "scmd = ''ping''")
    case True
    then show ?thesis
      using sel_inv_emit [OF c assms(2-4), where isselect = False and scmd = scmd and env = env] not_select_ping
      by (simp add: parse_cmd_ping state_of_def)
  next
    case np: False
    show ?thesis
    proof (cases "EqualFold scmd ''select''")
      case sel: True
      show ?thesis
      proof (cases "select_db env argv")
        case (Inl e)
        then show ?thesis using sel c by (simp add: parse_cmd_select_fatal state_of_def)
      next
        case (Inr b)
        then show ?thesis
          using sel bc [OF cb] sel_inv_emit [OF cb assms(2-4), where isselect = True and env = env]
          by (simp add: parse_cmd_select state_of_def)
      qed
    next
      case False
      then show ?thesis
        using np bc [OF c] sel_inv_emit [OF c assms(2-4), where isselect = False and scmd = scmd and env = env]
        by (simp add: parse_cmd_other state_of_def)
    qed
  qed
qed

lemma sel_inv_parse_step:
  assumes "sel_inv conf st" "TargetDB conf \<noteq> - 1"
    and "- (2 ^ 31) \<le> TargetDB conf" "TargetDB conf < 2 ^ 31"
  shows "sel_inv conf (state_of (parse_step env conf st r))"
proof (cases r)
  case (Command scmd argv)
  then show ?thesis
    using sel_inv_parse_cmd [OF assms, of env scmd argv] by (simp add: parse_step_def)
qed (use assms(1) in \<open>simp_all add: parse_step_def state_of_def\<close>)

lemma sel_inv_parser:
  assumes "TargetDB conf \<noteq> - 1" "- (2 ^ 31) \<le> TargetDB conf" "TargetDB conf < 2 ^ 31"
  shows "sel_inv conf st \<Longrightarrow> sel_inv conf (state_of (parser env conf st rs))"
proof (induction rs arbitrary: st)
  case Nil
  then show ?case by (simp add: state_of_def)
next
  case (Cons r rs)
  have step: "sel_inv conf (state_of (parse_step env conf st r))"
    using Cons.prems assms by (rule sel_inv_parse_step)
  show ?case
  proof (cases "parse_step env conf st r")
    case (Inl a)
    then show ?thesis using step by simp
  next
    case (Inr st')
    then have "sel_inv conf st'" using step by (simp add: state_of_def)
    then show ?thesis using Inr Cons.IH by simp
  qed
qed

lemma sel_inv_init: "sel_inv conf (syncCommand_init st)"
  by (simp add: sel_inv_def syncCommand_init_def selects_def)

lemma ex_run: "sendBuf (state_of (parser example_env (example_conf\<lparr>TargetDB := 7\<rparr>)
          (syncCommand_init NewDbSyncer)
          [Command ''SELECT'' [''0''], Command ''SET'' [''a'', ''1''],
           Command ''SELECT'' [''3''], Command ''SET'' [''b'', ''2'']])) =
      [\<lparr>Cmd = ''SELECT'', Args = [''7'']\<rparr>, \<lparr>Cmd = ''SET'', Args = [''a'', ''1'']\<rparr>,
       \<lparr>Cmd = ''SET'', Args = [''b'', ''2'']\<rparr>]"
  by (simp add: parser_eval)

lemma select_accepted: "select_db example_env [''0''] = Inr False"
  by (simp add: select_db_def Atoi_def is_digit_def example_env_def)

text \<open>
  What holds of coalescing when the target database is not -1 and fits the 32-bit
  \<open>lastdb\<close>, as every database index in use does. A \<open>select\<close> of an accepted
  database queues the single command \<open>SELECT\<close> of the target database, and makes it
  \<open>lastdb\<close>, exactly when the target database differs from \<open>lastdb\<close> and the command
  passes the key filter (as it always does when no key filter is configured);
  otherwise it leaves the send buffer and \<open>lastdb\<close> as they are and adds one to
  \<open>nbypass\<close>. From the start of \<open>syncCommand\<close>, whatever the stream, the send buffer
  receives at most one \<open>select\<close>.
\<close>

lemma select_coalescing:
  assumes "TargetDB conf \<noteq> - 1" and "- (2 ^ 31) \<le> TargetDB conf" and "TargetDB conf < 2 ^ 31"
  shows "(EqualFold scmd ''select'' \<and> select_db env argv = Inr False \<longrightarrow>
            (\<exists>st'. parse_cmd env conf st scmd argv = Inr st' \<and>
               (if TargetDB conf \<noteq> sint (lastdb st) \<and> snd (filter_key env conf scmd argv)
                then sendBuf st' = sendBuf st @
                       [\<lparr>Cmd = ''SELECT'', Args = [FormatInt (TargetDB conf)]\<rparr>] \<and>
                     nbypass st' = nbypass st \<and> sint (lastdb st') = TargetDB conf
                else sendBuf st' = sendBuf st \<and> nbypass st' = nbypass st + 1 \<and>
                     lastdb st' = lastdb st))) \<and>
         length (selects (sendBuf (state_of (parser env conf (syncCommand_init st0) rs)))) \<le> 1"
proof (intro conjI impI)
  assume a: "EqualFold scmd ''select'' \<and> select_db env argv = Inr False"
  let ?s = "(count_pull env conf st)\<lparr>bypass := False\<rparr>"
  let ?e = "emit_cmd env conf True False scmd argv ?s"
  have p: "parse_cmd env conf st scmd argv = Inr ?e"
    using parse_cmd_select [OF conjunct1 [OF a] conjunct2 [OF a], of conf st] by simp
  have "(if TargetDB conf \<noteq> sint (lastdb st) \<and> snd (filter_key env conf scmd argv)
         then sendBuf ?e = sendBuf st @
                [\<lparr>Cmd = ''SELECT'', Args = [FormatInt (TargetDB conf)]\<rparr>] \<and>
              nbypass ?e = nbypass st \<and> sint (lastdb ?e) = TargetDB conf
         else sendBuf ?e = sendBuf st \<and> nbypass ?e = nbypass st + 1 \<and> lastdb ?e = lastdb st)"
    using emit_cmd_cases [of env conf True False scmd argv ?s] assms
    by (auto simp add: count_pull_simps sint_int32)
  then show "\<exists>st'. parse_cmd env conf st scmd argv = Inr st' \<and>
               (if TargetDB conf \<noteq> sint (lastdb st) \<and> snd (filter_key env conf scmd argv)
                then sendBuf st' = sendBuf st @
                       [\<lparr>Cmd = ''SELECT'', Args = [FormatInt (TargetDB conf)]\<rparr>] \<and>
                     nbypass st' = nbypass st \<and> sint (lastdb st') = TargetDB conf
                else sendBuf st' = sendBuf st \<and> nbypass st' = nbypass st + 1 \<and>
                     lastdb st' = lastdb st)"
    using p by blast
next
  show "length (selects (sendBuf (state_of (parser env conf (syncCommand_init st0) rs)))) \<le> 1"
    using sel_inv_parser [OF assms sel_inv_init, of env st0 rs] by (simp add: sel_inv_def)
qed

text \<open>The lemma at the stream \<open>SELECT 0\<close>, \<open>SET a 1\<close>, \<open>SELECT 3\<close>, \<open>SET b 2\<close> with
  target database 7: one \<open>SELECT 7\<close> is queued, then the two \<open>SET\<close>.\<close>

lemma select_coalescing_example:
  "TargetDB (example_conf\<lparr>TargetDB := 7\<rparr>) \<noteq> - 1 \<and>
   - (2 ^ 31) \<le> TargetDB (example_conf\<lparr>TargetDB := 7\<rparr>) \<and>
   TargetDB (example_conf\<lparr>TargetDB := 7\<rparr>) < 2 ^ 31 \<and>
   EqualFold ''SELECT'' ''select'' \<and> select_db example_env [''0''] = Inr False \<and>
   (\<exists>st'. parse_cmd example_env (example_conf\<lparr>TargetDB := 7\<rparr>) (syncCommand_init NewDbSyncer)
            ''SELECT'' [''0''] = Inr st' \<and>
          sendBuf st' = [\<lparr>Cmd = ''SELECT'', Args = [''7'']\<rparr>]) \<and>
   sendBuf (state_of (parser example_env (example_conf\<lparr>TargetDB := 7\<rparr>)
          (syncCommand_init NewDbSyncer)
          [Command ''SELECT'' [''0''], Command ''SET'' [''a'', ''1''],
           Command ''SELECT'' [''3''], Command ''SET'' [''b'', ''2'']])) =
      [\<lparr>Cmd = ''SELECT'', Args = [''7'']\<rparr>, \<lparr>Cmd = ''SET'', Args = [''a'', ''1'']\<rparr>,
       \<lparr>Cmd = ''SET'', Args = [''b'', ''2'']\<rparr>] \<and>
   length (selects (sendBuf (state_of (parser example_env (example_conf\<lparr>TargetDB := 7\<rparr>)
          (syncCommand_init NewDbSyncer)
          [Command ''SELECT'' [''0''], Command ''SET'' [''a'', ''1''],
           Command ''SELECT'' [''3''], Command ''SET'' [''b'', ''2'']])))) \<le> 1"
proof -
  let ?c = "example_conf\<lparr>TargetDB := 7\<rparr>"
  have h1: "TargetDB ?c \<noteq> - 1" by simp
  have h2: "- (2 ^ 31) \<le> TargetDB ?c" by simp
  have h3: "TargetDB ?c < 2 ^ 31" by simp
  note T = select_coalescing [OF h1 h2 h3, where scmd = "''SELECT''" and env = example_env
      and argv = "[''0'']" and st = "syncCommand_init NewDbSyncer" and ?st0.0 = NewDbSyncer
      and rs = "[Command ''SELECT'' [''0''], Command ''SET'' [''a'', ''1''],
           Command ''SELECT'' [''3''], Command ''SET'' [''b'', ''2'']]"]
  have "\<exists>st'. parse_cmd example_env ?c (syncCommand_init NewDbSyncer) ''SELECT'' [''0''] = Inr st' \<and>
          sendBuf st' = [\<lparr>Cmd = ''SELECT'', Args = [''7'']\<rparr>]"
    by (simp add: parser_eval)
  then show ?thesis
    using h1 h2 h3 select_SELECT select_accepted conjunct2 [OF T] ex_run by blast
qed

text \<open>
  C6, at the target database 4294967303 and the stream \<open>SELECT 0\<close>, \<open>SET a 1\<close>,
  \<open>SELECT 3\<close>, \<open>SET b 2\<close>, all databases accepted. The parser keeps \<open>lastdb\<close> in an
  \<open>int32\<close>: \<open>int32(4294967303)\<close> is 7, which never equals the configured value, so
  the comparison that coalesces never succeeds. Every \<open>select\<close> queues \<open>SELECT 7\<close>:
  two in one run with the same destination, and neither is the \<open>SELECT\<close> of the
  override.
\<close>

theorem select_not_coalesced_beyond_int32:
  "sendBuf (state_of (parser example_env (example_conf\<lparr>TargetDB := 4294967303\<rparr>)
          (syncCommand_init NewDbSyncer)
          [Command ''SELECT'' [''0''], Command ''SET'' [''a'', ''1''],
           Command ''SELECT'' [''3''], Command ''SET'' [''b'', ''2'']])) =
      [\<lparr>Cmd = ''SELECT'', Args = [''7'']\<rparr>, \<lparr>Cmd = ''SET'', Args = [''a'', ''1'']\<rparr>,
       \<lparr>Cmd = ''SELECT'', Args = [''7'']\<rparr>, \<lparr>Cmd = ''SET'', Args = [''b'', ''2'']\<rparr>]"
  by (simp add: parser_eval)

section \<open>Properties of the receiver\<close>

text \<open>
  C2, as it holds. With \<open>Metric\<close> on, a reply without error adds one to the success
  counter and leaves the failure counter, and a failed \<open>Receive\<close> adds one to the
  failure counter and is fatal. With \<open>Metric\<close> off, the iteration only advances
  \<open>recvId\<close>, whatever \<open>Receive\<close> returned.
\<close>

theorem receiver_counts_when_metric:
  "(Metric conf \<longrightarrow>
      SuccessCmdCount (state_of (receive_reply conf ReplyOk now st)) = SuccessCmdCount st + 1 \<and>
      FailCmdCount (state_of (receive_reply conf ReplyOk now st)) = FailCmdCount st \<and>
      receive_reply conf (ReplyErr neterr) now st =
        Inl (if neterr then NetErrorWhileReceive else ErrorReply,
             st\<lparr>recvId := recvId st + 1, FailCmdCount := FailCmdCount st + 1\<rparr>)) \<and>
   (\<not> Metric conf \<longrightarrow> receive_reply conf r now st = Inr (st\<lparr>recvId := recvId st + 1\<rparr>))"
  by (simp add: receive_reply_def check_node_def fetch_node_def state_of_def Let_def
      split: option.splits list.splits)

theorem receiver_counts_when_metric_witness:
  "Metric example_conf \<and>
   SuccessCmdCount (state_of (receive_reply example_conf ReplyOk 0 NewDbSyncer)) = 1 \<and>
   receive_reply example_conf (ReplyErr True) 0 NewDbSyncer =
     Inl (NetErrorWhileReceive, NewDbSyncer\<lparr>recvId := 1, FailCmdCount := 1\<rparr>) \<and>
   \<not> Metric (example_conf\<lparr>Metric := False\<rparr>) \<and>
   receive_reply (example_conf\<lparr>Metric := False\<rparr>) ReplyOk 0 NewDbSyncer =
     Inr (NewDbSyncer\<lparr>recvId := 1\<rparr>)"
  using receiver_counts_when_metric [of example_conf 0 NewDbSyncer True ReplyOk]
    receiver_counts_when_metric [of "example_conf\<lparr>Metric := False\<rparr>" 0 NewDbSyncer True ReplyOk]
  by (simp add: example_conf_def NewDbSyncer_def)

text \<open>
  C2 as stated fails when \<open>Metric\<close> is off: a failed \<open>Receive\<close> is not fatal and the
  failure counter stays at 0.
\<close>

theorem receiver_ignores_error_without_metric:
  "receive_reply (example_conf\<lparr>Metric := False\<rparr>) (ReplyErr True) 0 NewDbSyncer =
     Inr (NewDbSyncer\<lparr>recvId := 1\<rparr>) \<and>
   FailCmdCount (NewDbSyncer\<lparr>recvId := 1\<rparr>) = 0"
  by (simp add: receive_reply_def example_conf_def NewDbSyncer_def)

section \<open>Properties of the sender\<close>

lemma addDelayChan_cachedSize: "cachedSize (addDelayChan conf now i st) = cachedSize st"
  by (simp add: addDelayChan_def Let_def)

lemma send_cmd_cachedSize:
  "cachedSize st = 0 \<Longrightarrow> cachedSize (state_of (send_cmd conf send_err flush_err now st)) = 0"
  by (simp add: send_cmd_def state_of_def Let_def addDelayChan_cachedSize split: list.splits)

text \<open>
  C7, at the input of two queued commands with \<open>SenderSize = 0\<close>: the first command,
  5 bytes long, is sent; \<open>forward\<close>, \<open>sendId\<close> and \<open>noFlushCount\<close> become 1, but
  \<open>cachedSize\<close> stays 0 and nothing is flushed. No statement adds to \<open>cachedSize\<close>.
\<close>

theorem cachedSize_stays_zero:
  "\<exists>st'. send_cmd (example_conf\<lparr>Metric := False\<rparr>) False False 0
           ((syncCommand_init NewDbSyncer)
              \<lparr>sendBuf := [\<lparr>Cmd = ''SET'', Args = [''k'', ''v'']\<rparr>,
                           \<lparr>Cmd = ''SET'', Args = [''k2'', ''v2'']\<rparr>]\<rparr>) = Inr st' \<and>
         cmd_length \<lparr>Cmd = ''SET'', Args = [''k'', ''v'']\<rparr> = 5 \<and>
         SenderSize example_conf = 0 \<and>
         cachedSize st' = 0 \<and> noFlushCount st' = 1 \<and> forward st' = 1 \<and> sendId st' = 1 \<and>
         target st' = [Send ''SET'' [''k'', ''v'']]"
  by (simp add: send_cmd_def cmd_length_def syncCommand_init_def NewDbSyncer_def example_conf_def)

section \<open>Delay sampling\<close>

lemma smod_eq_0_iff_dvd: "0 < b \<Longrightarrow> (a :: int) smod b = 0 \<longleftrightarrow> b dvd a"
  by (auto simp add: signed_modulo_int_def mod_eq_0_iff_dvd sgn_0_0)

text \<open>
  With \<open>free\<close> the capacity of the delay channel minus its length, \<open>addDelayChan\<close>
  appends a sample for \<open>id\<close> exactly when \<open>free >= 4096\<close>, or \<open>free >= 1024\<close> and 10
  divides \<open>id\<close>, or \<open>free >= 128\<close> and 100 divides \<open>id\<close>, or 1000 divides \<open>id\<close>, and
  the channel has room; otherwise, and so when the channel is full, the state is
  unchanged.
\<close>

lemma addDelayChan_sampling:
  "addDelayChan conf now i st =
     (if (uint (SenderDelayChannelSize conf) - int (length (delayChannel st)) \<ge> 4096 \<or>
          uint (SenderDelayChannelSize conf) - int (length (delayChannel st)) \<ge> 1024 \<and>
            10 dvd sint i \<or>
          uint (SenderDelayChannelSize conf) - int (length (delayChannel st)) \<ge> 128 \<and>
            100 dvd sint i \<or>
          1000 dvd sint i) \<and>
         int (length (delayChannel st)) < uint (SenderDelayChannelSize conf)
      then st\<lparr>delayChannel := delayChannel st @ [\<lparr>t = now, id = i\<rparr>]\<rparr>
      else st)"
  by (simp add: addDelayChan_def sample_due_def Let_def smod_eq_0_iff_dvd)

lemma addDelayChan_delayChannel:
  "delayChannel (addDelayChan conf now i st) =
     (if (uint (SenderDelayChannelSize conf) - int (length (delayChannel st)) \<ge> 4096 \<or>
          uint (SenderDelayChannelSize conf) - int (length (delayChannel st)) \<ge> 1024 \<and>
            10 dvd sint i \<or>
          uint (SenderDelayChannelSize conf) - int (length (delayChannel st)) \<ge> 128 \<and>
            100 dvd sint i \<or>
          1000 dvd sint i) \<and>
         int (length (delayChannel st)) < uint (SenderDelayChannelSize conf)
      then delayChannel st @ [\<lparr>t = now, id = i\<rparr>]
      else delayChannel st)"
  by (simp only: addDelayChan_sampling [of conf now i st]) auto

lemma addDelayChan_fields:
  "sendId (addDelayChan conf now i st) = sendId st"
  "sendBuf (addDelayChan conf now i st) = sendBuf st"
  "noFlushCount (addDelayChan conf now i st) = noFlushCount st"
  by (simp_all add: addDelayChan_def Let_def)

text \<open>
  C8, as it holds. Every iteration of the sender that takes a command and sends it
  without error adds one to \<open>sendId\<close>, and always returns. With \<open>Metric\<close> on it
  appends a sample with the new \<open>sendId\<close> to the delay channel exactly when
  \<open>free >= 4096\<close>, or \<open>free >= 1024\<close> and 10 divides \<open>sendId\<close>, or \<open>free >= 128\<close> and
  100 divides \<open>sendId\<close>, or 1000 divides \<open>sendId\<close>, and the channel has room; when the
  channel is full the sample is dropped. With \<open>Metric\<close> off no send appends a
  sample.
\<close>

theorem sender_delay_sampling:
  assumes "sendBuf st = item # rest"
  shows "sendId (state_of (send_cmd conf False flush_err now st)) = sendId st + 1 \<and>
         delayChannel (state_of (send_cmd conf False flush_err now st)) =
           (if Metric conf \<and>
               (uint (SenderDelayChannelSize conf) - int (length (delayChannel st)) \<ge> 4096 \<or>
                uint (SenderDelayChannelSize conf) - int (length (delayChannel st)) \<ge> 1024 \<and>
                  10 dvd sint (sendId st + 1) \<or>
                uint (SenderDelayChannelSize conf) - int (length (delayChannel st)) \<ge> 128 \<and>
                  100 dvd sint (sendId st + 1) \<or>
                1000 dvd sint (sendId st + 1)) \<and>
               int (length (delayChannel st)) < uint (SenderDelayChannelSize conf)
            then delayChannel st @ [\<lparr>t = now, id = sendId st + 1\<rparr>]
            else delayChannel st)"
proof -
  let ?st1 = "st\<lparr>sendBuf := rest,
               target := target st @ [Send (Cmd item) (Args item)],
               noFlushCount := noFlushCount st + 1,
               forward := forward st + 1,
               PushCmdCount := PushCmdCount st + 1,
               NetworkFlow := NetworkFlow st + word_of_int (cmd_length item),
               sendId := sendId st + 1\<rparr>"
  let ?st2 = "if Metric conf then addDelayChan conf now (sendId ?st1) ?st1 else ?st1"
  have q: "delayChannel ?st1 = delayChannel st" "sendId ?st1 = sendId st + 1"
    by simp_all
  have s: "sendId ?st2 = sendId st + 1"
    by (simp add: addDelayChan_fields)
  have "delayChannel (state_of (send_cmd conf False flush_err now st)) = delayChannel ?st2"
    and "sendId (state_of (send_cmd conf False flush_err now st)) = sendId ?st2"
    using assms by (simp_all add: send_cmd_def state_of_def Let_def)
  moreover have "delayChannel ?st2 =
      (if Metric conf \<and>
          (uint (SenderDelayChannelSize conf) - int (length (delayChannel st)) \<ge> 4096 \<or>
           uint (SenderDelayChannelSize conf) - int (length (delayChannel st)) \<ge> 1024 \<and>
             10 dvd sint (sendId st + 1) \<or>
           uint (SenderDelayChannelSize conf) - int (length (delayChannel st)) \<ge> 128 \<and>
             100 dvd sint (sendId st + 1) \<or>
           1000 dvd sint (sendId st + 1)) \<and>
          int (length (delayChannel st)) < uint (SenderDelayChannelSize conf)
       then delayChannel st @ [\<lparr>t = now, id = sendId st + 1\<rparr>]
       else delayChannel st)"
  proof (cases "Metric conf")
    case True
    then show ?thesis
      using addDelayChan_delayChannel [of conf now "sendId st + 1" ?st1] by (simp only: q if_True simp_thms)
  next
    case False
    then show ?thesis by simp
  qed
  ultimately show ?thesis
    using s by (simp only: simp_thms)
qed

theorem sender_delay_sampling_witness:
  "sendBuf ((syncCommand_init NewDbSyncer)\<lparr>sendBuf := [\<lparr>Cmd = ''SET'', Args = [''k'', ''v'']\<rparr>]\<rparr>)
     = \<lparr>Cmd = ''SET'', Args = [''k'', ''v'']\<rparr> # [] \<and>
   Metric (example_conf\<lparr>SenderDelayChannelSize := 8192\<rparr>) \<and>
   delayChannel (state_of (send_cmd (example_conf\<lparr>SenderDelayChannelSize := 8192\<rparr>) False False 5
     ((syncCommand_init NewDbSyncer)\<lparr>sendBuf := [\<lparr>Cmd = ''SET'', Args = [''k'', ''v'']\<rparr>]\<rparr>)))
     = [\<lparr>t = 5, id = 1\<rparr>]"
proof -
  let ?st = "(syncCommand_init NewDbSyncer)\<lparr>sendBuf := [\<lparr>Cmd = ''SET'', Args = [''k'', ''v'']\<rparr>]\<rparr>"
  let ?c = "example_conf\<lparr>SenderDelayChannelSize := 8192\<rparr>"
  have a: "sendBuf ?st = \<lparr>Cmd = ''SET'', Args = [''k'', ''v'']\<rparr> # []"
    by simp
  have b: "Metric ?c" "uint (SenderDelayChannelSize ?c) = 8192"
    by (simp_all add: example_conf_def)
  have c: "delayChannel ?st = []" "sendId ?st = 0"
    by (simp_all add: syncCommand_init_def)
  show ?thesis
    using a b(1) sender_delay_sampling [OF a, of ?c False 5] b(2) c by simp
qed

text \<open>
  C8 as stated fails when \<open>Metric\<close> is off: with an empty delay channel of capacity
  8192, so \<open>free >= 4096\<close>, a command is sent and no sample is appended.
\<close>

theorem no_sampling_without_metric:
  "uint (SenderDelayChannelSize (example_conf\<lparr>Metric := False, SenderDelayChannelSize := 8192\<rparr>))
     - int (length (delayChannel ((syncCommand_init NewDbSyncer)
         \<lparr>sendBuf := [\<lparr>Cmd = ''SET'', Args = [''k'', ''v'']\<rparr>]\<rparr>))) \<ge> 4096 \<and>
   (\<exists>st'. send_cmd (example_conf\<lparr>Metric := False, SenderDelayChannelSize := 8192\<rparr>) False False 5
            ((syncCommand_init NewDbSyncer)
               \<lparr>sendBuf := [\<lparr>Cmd = ''SET'', Args = [''k'', ''v'']\<rparr>]\<rparr>) = Inr st' \<and>
          forward st' = 1 \<and> sendId st' = 1 \<and>
          target st' = [Send ''SET'' [''k'', ''v''], Flush] \<and> delayChannel st' = [])"
  by (simp add: send_cmd_def cmd_length_def syncCommand_init_def NewDbSyncer_def example_conf_def)

section \<open>Properties of the restorers\<close>

lemma HasPrefix_iff: "HasPrefix s p \<longleftrightarrow> prefix p s"
proof
  assume "HasPrefix s p"
  then have "take (length p) s = p" by (simp add: HasPrefix_def)
  then show "prefix p s" by (metis take_is_prefix)
next
  assume "prefix p s"
  then obtain zs where "s = p @ zs" by (auto simp add: prefix_def)
  then show "HasPrefix s p" by (simp add: HasPrefix_def)
qed

lemma restore_by_key_eq:
  "restore_by_key F e w =
     (if matches_key F e then w\<lparr>conn := conn w @ [RestoreRdbEntry e]\<rparr> else w)"
  by (induction F) (auto simp add: matches_key_def HasPrefix_iff)

lemma restore_by_slot_eq:
  "restore_by_slot env S e w =
     (if matches_slot env S e then w\<lparr>conn := conn w @ [RestoreRdbEntry e]\<rparr> else w)"
  by (induction S) (auto simp add: matches_slot_def)

lemma restore_filtered_eq:
  "restore_filtered env conf e w =
     (if passes_filter env conf e then w\<lparr>conn := conn w @ [RestoreRdbEntry e]\<rparr> else w)"
  by (simp add: restore_filtered_def passes_filter_def restore_by_key_eq restore_by_slot_eq)

lemma select_target_conn:
  "\<exists>ops. conn (select_target conf e w) = conn w @ ops \<and> RestoreRdbEntry e \<notin> set ops"
  by (simp add: select_target_def)

lemma restored_restore_entry:
  assumes "k < length (workers st)"
  shows "restored k e st (restore_entry env conf k e st) \<longleftrightarrow>
           AcceptDB env (DB e) \<and> passes_filter env conf e"
proof (cases "AcceptDB env (DB e)")
  case False
  then show ?thesis by (simp add: restored_def restore_entry_def)
next
  case True
  obtain ops where ops: "conn (select_target conf e (workers st ! k)) = conn (workers st ! k) @ ops"
    and no: "RestoreRdbEntry e \<notin> set ops"
    using select_target_conn by blast
  show ?thesis
    using True assms ops no
    by (simp add: restored_def restore_entry_def restore_filtered_eq)
qed

lemma restore_entry_counters:
  "ignore (restore_entry env conf k e st) =
     (if AcceptDB env (DB e) then ignore st else ignore st + 1)"
  "nentry (restore_entry env conf k e st) =
     (if AcceptDB env (DB e) then nentry st + 1 else nentry st)"
  by (simp_all add: restore_entry_def)

lemmas restore_eval = restore_entry_def restore_filtered_def select_target_def HasPrefix_def
  one_worker_def NewDbSyncer_def example_env_def example_conf_def restored_def

text \<open>
  C4, as it holds. A record whose database is not accepted adds one to \<open>ignore\<close>,
  leaves \<open>nentry\<close> and is not restored. A record whose database is accepted adds one
  to \<open>nentry\<close> and leaves \<open>ignore\<close>, whether or not it matches the filter; if it
  matches the key-prefix filter, or with no key-prefix filter the slot filter, it is
  restored.
\<close>

theorem restorer_counters:
  assumes "k < length (workers st)"
  shows "(\<not> AcceptDB env (DB e) \<longrightarrow>
            ignore (restore_entry env conf k e st) = ignore st + 1 \<and>
            nentry (restore_entry env conf k e st) = nentry st \<and>
            \<not> restored k e st (restore_entry env conf k e st)) \<and>
         (AcceptDB env (DB e) \<longrightarrow>
            ignore (restore_entry env conf k e st) = ignore st \<and>
            nentry (restore_entry env conf k e st) = nentry st + 1 \<and>
            (FilterKey conf \<noteq> [] \<and> matches_key (FilterKey conf) e \<longrightarrow>
               restored k e st (restore_entry env conf k e st)) \<and>
            (FilterKey conf = [] \<and> FilterSlot conf \<noteq> [] \<and> matches_slot env (FilterSlot conf) e \<longrightarrow>
               restored k e st (restore_entry env conf k e st)))"
  using restored_restore_entry [OF assms, of e env conf]
  by (simp add: restore_entry_counters passes_filter_def)

theorem restorer_counters_witness:
  "0 < length (workers one_worker) \<and>
   AcceptDB example_env (DB \<lparr>DB = 0, Key = ''user:1'', Payload = ''x''\<rparr>) \<and>
   FilterKey (example_conf\<lparr>FilterKey := [''user:'']\<rparr>) \<noteq> [] \<and>
   matches_key (FilterKey (example_conf\<lparr>FilterKey := [''user:'']\<rparr>))
     \<lparr>DB = 0, Key = ''user:1'', Payload = ''x''\<rparr> \<and>
   nentry (restore_entry example_env (example_conf\<lparr>FilterKey := [''user:'']\<rparr>) 0
     \<lparr>DB = 0, Key = ''user:1'', Payload = ''x''\<rparr> one_worker) = nentry one_worker + 1 \<and>
   restored 0 \<lparr>DB = 0, Key = ''user:1'', Payload = ''x''\<rparr> one_worker
     (restore_entry example_env (example_conf\<lparr>FilterKey := [''user:'']\<rparr>) 0
        \<lparr>DB = 0, Key = ''user:1'', Payload = ''x''\<rparr> one_worker) \<and>
   \<not> AcceptDB example_env (DB \<lparr>DB = 5, Key = ''user:1'', Payload = ''x''\<rparr>) \<and>
   ignore (restore_entry example_env (example_conf\<lparr>FilterKey := [''user:'']\<rparr>) 0
     \<lparr>DB = 5, Key = ''user:1'', Payload = ''x''\<rparr> one_worker) = ignore one_worker + 1"
proof -
  let ?c = "example_conf\<lparr>FilterKey := [''user:'']\<rparr>"
  let ?e = "\<lparr>DB = 0, Key = ''user:1'', Payload = ''x''\<rparr>"
  let ?e5 = "\<lparr>DB = 5, Key = ''user:1'', Payload = ''x''\<rparr>"
  have k: "0 < length (workers one_worker)"
    by (simp add: one_worker_def)
  have a: "AcceptDB example_env (DB ?e)" "\<not> AcceptDB example_env (DB ?e5)"
    by (simp_all add: example_env_def)
  have f: "FilterKey ?c \<noteq> []" "matches_key (FilterKey ?c) ?e"
    by (simp_all add: matches_key_def)
  show ?thesis
    using k a f restorer_counters [OF k, of example_env ?e ?c]
      restorer_counters [OF k, of example_env ?e5 ?c]
    by simp
qed

text \<open>
  C4 as stated fails for an accepted record that matches no prefix: it is counted in
  \<open>nentry\<close> and \<open>ignore\<close> stays as it is.
\<close>

theorem unmatched_not_ignored:
  "restore_entry example_env (example_conf\<lparr>FilterKey := [''user:'']\<rparr>) 0
     \<lparr>DB = 0, Key = ''order:1'', Payload = ''y''\<rparr> one_worker =
   one_worker\<lparr>nentry := 1\<rparr> \<and> ignore (one_worker\<lparr>nentry := 1\<rparr>) = ignore one_worker"
  by (simp add: restore_eval)

text \<open>
  C5, as it holds. For a record whose database is accepted: with a key-prefix filter
  it is restored exactly when some configured prefix is a prefix of its key; with no
  key-prefix filter and a slot filter, exactly when its slot is the number
  \<open>strconv.Atoi\<close> gives for one of the configured slots.
\<close>

theorem filter_soundness:
  assumes "k < length (workers st)" and "AcceptDB env (DB e)"
  shows "(FilterKey conf \<noteq> [] \<longrightarrow>
            (restored k e st (restore_entry env conf k e st) \<longleftrightarrow>
               (\<exists>p \<in> set (FilterKey conf). prefix p (Key e)))) \<and>
         (FilterKey conf = [] \<and> FilterSlot conf \<noteq> [] \<longrightarrow>
            (restored k e st (restore_entry env conf k e st) \<longleftrightarrow>
               (\<exists>s \<in> set (FilterSlot conf). KeyToSlot env (Key e) = fst (Atoi s))))"
  using restored_restore_entry [OF assms(1), of e env conf] assms(2)
  by (simp add: passes_filter_def matches_key_def matches_slot_def)

theorem filter_soundness_witness:
  "0 < length (workers one_worker) \<and>
   AcceptDB example_env (DB \<lparr>DB = 0, Key = ''user:1'', Payload = ''x''\<rparr>) \<and>
   FilterKey (example_conf\<lparr>FilterKey := [''user:'']\<rparr>) \<noteq> [] \<and>
   (\<exists>p \<in> set (FilterKey (example_conf\<lparr>FilterKey := [''user:'']\<rparr>)).
      prefix p (Key \<lparr>DB = 0, Key = ''user:1'', Payload = ''x''\<rparr>)) \<and>
   restored 0 \<lparr>DB = 0, Key = ''user:1'', Payload = ''x''\<rparr> one_worker
     (restore_entry example_env (example_conf\<lparr>FilterKey := [''user:'']\<rparr>) 0
        \<lparr>DB = 0, Key = ''user:1'', Payload = ''x''\<rparr> one_worker) \<and>
   FilterKey (example_conf\<lparr>FilterSlot := [''6'']\<rparr>) = [] \<and>
   FilterSlot (example_conf\<lparr>FilterSlot := [''6'']\<rparr>) \<noteq> [] \<and>
   restored 0 \<lparr>DB = 0, Key = ''user:1'', Payload = ''x''\<rparr> one_worker
     (restore_entry example_env (example_conf\<lparr>FilterSlot := [''6'']\<rparr>) 0
        \<lparr>DB = 0, Key = ''user:1'', Payload = ''x''\<rparr> one_worker)"
proof -
  let ?c = "example_conf\<lparr>FilterKey := [''user:'']\<rparr>"
  let ?d = "example_conf\<lparr>FilterSlot := [''6'']\<rparr>"
  let ?e = "\<lparr>DB = 0, Key = ''user:1'', Payload = ''x''\<rparr>"
  have k: "0 < length (workers one_worker)"
    by (simp add: one_worker_def)
  have a: "AcceptDB example_env (DB ?e)"
    by (simp add: example_env_def)
  have f: "FilterKey ?c \<noteq> []" "\<exists>p \<in> set (FilterKey ?c). prefix p (Key ?e)"
    by simp_all
  have g: "FilterKey ?d = []" "FilterSlot ?d \<noteq> []"
    "\<exists>s \<in> set (FilterSlot ?d). KeyToSlot example_env (Key ?e) = fst (Atoi s)"
    by (simp_all add: example_conf_def example_env_def Atoi_def is_digit_def)
  show ?thesis
    using k a f g filter_soundness [OF k a, of ?c] filter_soundness [OF k a, of ?d]
    by simp
qed

text \<open>
  C5 as stated fails for a record whose database is not accepted: its key has a
  configured prefix and it is not restored.
\<close>

theorem matching_key_not_restored:
  "prefix ''user:'' (Key \<lparr>DB = 5, Key = ''user:1'', Payload = ''x''\<rparr>) \<and>
   \<not> restored 0 \<lparr>DB = 5, Key = ''user:1'', Payload = ''x''\<rparr> one_worker
       (restore_entry example_env (example_conf\<lparr>FilterKey := [''user:'']\<rparr>) 0
          \<lparr>DB = 5, Key = ''user:1'', Payload = ''x''\<rparr> one_worker)"
  by (simp add: restore_eval)

section \<open>Properties of \<open>sync\<close>\<close>

lemma bypass_cmd_view: "restorer_view (bypass_cmd m st) = restorer_view st"
  by (simp add: restorer_view_def bypass_cmd_def Let_def)

lemma count_pull_view: "restorer_view (count_pull env conf st) = restorer_view st"
  by (simp add: restorer_view_def count_pull_def Let_def)

lemma emit_cmd_view:
  "restorer_view (emit_cmd env conf isselect ignorecmd scmd argv st) = restorer_view st"
proof (cases "filter_key env conf scmd argv")
  case (Pair new_argv isfilter)
  then show ?thesis
    using bypass_cmd_view [of False st] bypass_cmd_view [of True st]
    by (simp add: emit_cmd_def Let_def) (simp add: restorer_view_def)
qed

lemma bypass_update_view: "restorer_view (st\<lparr>bypass := b\<rparr>) = restorer_view st"
  by (simp add: restorer_view_def)

lemma parse_cmd_view:
  "restorer_view (state_of (parse_cmd env conf st scmd argv)) = restorer_view st"
proof (cases "scmd = ''ping''")
  case True
  then show ?thesis
    by (simp add: parse_cmd_ping state_of_def emit_cmd_view count_pull_view)
next
  case np: False
  show ?thesis
  proof (cases "EqualFold scmd ''select''")
    case sel: True
    show ?thesis
    proof (cases "select_db env argv")
      case (Inl e)
      then show ?thesis
        using sel by (simp add: parse_cmd_select_fatal state_of_def count_pull_view)
    next
      case (Inr b)
      then show ?thesis
        using sel
        by (simp add: parse_cmd_select state_of_def emit_cmd_view bypass_cmd_view
            bypass_update_view count_pull_view)
    qed
  next
    case False
    then show ?thesis
      using np
      by (simp add: parse_cmd_other state_of_def emit_cmd_view bypass_cmd_view count_pull_view)
  qed
qed

lemma parse_step_view:
  "restorer_view (state_of (parse_step env conf st r)) = restorer_view st"
  by (cases r) (simp_all add: parse_step_def parse_cmd_view, simp_all add: state_of_def)

lemma addDelayChan_view: "restorer_view (addDelayChan conf now i st) = restorer_view st"
  by (simp add: restorer_view_def addDelayChan_def Let_def)

lemma send_cmd_view:
  "restorer_view (state_of (send_cmd conf se fe now st)) = restorer_view st"
proof (cases "sendBuf st")
  case Nil
  then show ?thesis by (simp add: send_cmd_def state_of_def)
next
  case (Cons item rest)
  have a: "restorer_view (if Metric conf then addDelayChan conf now i s else s) = restorer_view s"
    for i s
    by (simp add: addDelayChan_view)
  show ?thesis
    using Cons
    by (simp add: send_cmd_def state_of_def Let_def)
       (simp add: restorer_view_def addDelayChan_def Let_def)
qed

lemma receive_reply_view:
  "restorer_view (state_of (receive_reply conf r now st)) = restorer_view st"
  by (simp add: restorer_view_def receive_reply_def check_node_def fetch_node_def state_of_def
      Let_def split: reply.splits option.splits list.splits)

lemma pipeline_step_view:
  "restorer_view (state_of (pipeline_step env conf tn st)) = restorer_view st"
  by (cases tn)
     (simp_all add: pipeline_step_def parse_step_view send_cmd_view receive_reply_view)

lemma stream_phase_view:
  "restorer_view s' = restorer_view s \<Longrightarrow> stream_phase fin s \<Longrightarrow> stream_phase fin s'"
  by (simp add: restorer_view_def stream_phase_def)

lemma pipeline_stream:
  "stream_phase fin st \<Longrightarrow> \<forall>s \<in> set (fst (pipeline env conf tns st)). stream_phase fin s"
proof (induction tns arbitrary: st)
  case Nil
  then show ?case by simp
next
  case (Cons tn tns)
  have step: "stream_phase fin (state_of (pipeline_step env conf tn st))"
    using pipeline_step_view Cons.prems by (rule stream_phase_view)
  show ?case
  proof (cases "pipeline_step env conf tn st")
    case (Inl a)
    then show ?thesis using step by (cases a) (simp add: state_of_def)
  next
    case (Inr st')
    then have "stream_phase fin st'" using step by (simp add: state_of_def)
    then show ?thesis using Inr Cons.IH [of st'] by (simp split: prod.splits)
  qed
qed

lemma restore_entry_snapshot:
  "snapshot_phase st \<Longrightarrow> snapshot_phase (restore_entry env conf k e st)"
  by (simp add: snapshot_phase_def restore_entry_def)

lemma restore_all_snapshot:
  "snapshot_phase st \<Longrightarrow> \<forall>s \<in> set (restore_all env conf es st). snapshot_phase s"
proof (induction es arbitrary: st)
  case Nil
  then show ?case by simp
next
  case (Cons a es)
  obtain k e where a: "a = (k, e)" by (cases a)
  let ?st' = "if k < length (workers st) then restore_entry env conf k e st else st"
  have "snapshot_phase ?st'" using Cons.prems by (simp add: restore_entry_snapshot)
  then show ?case using Cons.IH [of ?st'] a by (simp add: Let_def)
qed

lemma sendSyncCmd_nonzero: "sendSyncCmd evs = Some n \<Longrightarrow> n \<noteq> 0"
  by (induction evs rule: sendSyncCmd.induct) (auto split: if_splits)

lemma sendPSyncCmd_wait_nonzero: "sendPSyncCmd_wait m evs = Some n \<Longrightarrow> n \<noteq> 0"
proof (induction m evs rule: sendPSyncCmd_wait.induct)
  case (1 nsize evs)
  then show ?case
    by (subst (asm) (3) sendPSyncCmd_wait.simps) (auto split: if_splits list.splits wait_event.splits)
qed

lemma handshake_nonzero: "handshake conf evs = Some n \<Longrightarrow> n \<noteq> 0"
  by (auto simp add: handshake_def sendPSyncCmd_def split: if_splits
      dest: sendSyncCmd_nonzero sendPSyncCmd_wait_nonzero)

lemma snapshot_phase_start: "snapshot_phase NewDbSyncer"
  by (simp add: snapshot_phase_def NewDbSyncer_def)

lemma snapshot_phase_workers: "snapshot_phase s \<Longrightarrow> snapshot_phase (s\<lparr>workers := w\<rparr>)"
  by (simp add: snapshot_phase_def)

lemma syncRDBFile_states:
  "0 \<le> Parallel conf \<Longrightarrow>
   fst (syncRDBFile env conf nsize es st) =
     st\<lparr>workers := replicate (nat (Parallel conf)) \<lparr>rlastdb = 0, conn = []\<rparr>\<rparr> #
     restore_all env conf es
       (st\<lparr>workers := replicate (nat (Parallel conf)) \<lparr>rlastdb = 0, conn = []\<rparr>\<rparr>)"
  by (simp add: syncRDBFile_def Let_def)

lemma syncRDBFile_snapshot:
  assumes "snapshot_phase st"
  shows "\<forall>s \<in> set (fst (syncRDBFile env conf nsize es st)). snapshot_phase s"
proof (cases "Parallel conf < 0")
  case True
  then show ?thesis by (simp add: syncRDBFile_def)
next
  case False
  let ?st0 = "st\<lparr>workers := replicate (nat (Parallel conf)) \<lparr>rlastdb = 0, conn = []\<rparr>\<rparr>"
  have a: "snapshot_phase ?st0"
    using assms by (rule snapshot_phase_workers)
  have b: "\<forall>s \<in> set (restore_all env conf es ?st0). snapshot_phase s"
    using a by (rule restore_all_snapshot)
  have "fst (syncRDBFile env conf nsize es st) = ?st0 # restore_all env conf es ?st0"
    using False by (simp add: syncRDBFile_states)
  then show ?thesis using a b by simp
qed

lemma syncRDBFile_result:
  "snd (syncRDBFile env conf nsize es st) = None \<longleftrightarrow> 0 \<le> Parallel conf \<and> nsize \<noteq> 0"
  by (simp add: syncRDBFile_def Let_def)

lemma syncRDBFile_end:
  assumes "0 \<le> Parallel conf"
  shows "last (NewDbSyncer # fst (syncRDBFile env conf nsize es NewDbSyncer)) =
           snapshot_end env conf es"
  by (simp only: syncRDBFile_states [OF assms] snapshot_end_def Let_def last_ConsR list.distinct
      not_False_eq_True)

lemma close_waitFull_stream:
  "snapshot_phase s \<Longrightarrow> stream_phase s (close_waitFull s)"
  by (simp add: snapshot_phase_def stream_phase_def close_waitFull_def)

lemma syncCommand_init_view: "restorer_view (syncCommand_init st) = restorer_view st"
  by (simp add: restorer_view_def syncCommand_init_def)

lemma syncCommand_stream:
  assumes "stream_phase fin st"
  shows "\<forall>s \<in> set (fst (syncCommand env conf tns st)). stream_phase fin s"
proof (cases "makechan_ok env 40 (SenderCount conf) \<and>
    makechan_ok env 8 (SenderDelayChannelSize conf)")
  case False
  then have "syncCommand env conf tns st = ([], Some MakeChanOutOfRange)"
    unfolding syncCommand_def by (rule if_not_P)
  then show ?thesis by simp
next
  case True
  have init: "stream_phase fin (syncCommand_init st)"
    using syncCommand_init_view assms by (rule stream_phase_view)
  obtain sts r where p: "pipeline env conf tns (syncCommand_init st) = (sts, r)"
    by (cases "pipeline env conf tns (syncCommand_init st)")
  have "\<forall>s \<in> set sts. stream_phase fin s"
    using pipeline_stream [OF init, of env conf tns] p by simp
  then show ?thesis
    using init p True by (simp add: syncCommand_def Let_def)
qed

lemma sync_waiting:
  "handshake conf evs = None \<Longrightarrow> sync env conf evs es tns = ([NewDbSyncer], None)"
  by (simp only: sync_def Let_def option.case)

lemma sync_snapshot_fatal:
  "handshake conf evs = Some nsize \<Longrightarrow>
   syncRDBFile env conf nsize es NewDbSyncer = (sts, Some e) \<Longrightarrow>
   sync env conf evs es tns = (NewDbSyncer # sts, Some e)"
  by (simp only: sync_def Let_def option.case prod.case)

lemma sync_commands:
  "handshake conf evs = Some nsize \<Longrightarrow>
   syncRDBFile env conf nsize es NewDbSyncer = (sts, None) \<Longrightarrow>
   syncCommand env conf tns (close_waitFull (last (NewDbSyncer # sts))) = (sts', r) \<Longrightarrow>
   sync env conf evs es tns =
     (NewDbSyncer # sts @ [close_waitFull (last (NewDbSyncer # sts))] @ sts', r)"
  by (simp only: sync_def Let_def option.case prod.case)

text \<open>
  C3, as it holds. The states of every run of \<open>sync\<close>, under every interleaving of
  the goroutines of \<open>syncCommand\<close>, split into a first part in which \<open>waitFull\<close> has
  not been closed and no command has been queued or sent, and a second part in which
  \<open>waitFull\<close> has been closed exactly once and the restorers are as they were when
  they had taken every record. So the close happens at most once, after the restores
  and before the first command is queued. It happens, and the second part is reached,
  exactly when the handshake returns and \<open>Parallel\<close> is not negative, so that
  \<open>syncRDBFile\<close> returns.
\<close>

theorem snapshot_done_once_when_snapshot_returns:
  "\<exists>pre post. fst (sync env conf evs es tns) = pre @ post \<and>
      (\<forall>s \<in> set pre. snapshot_phase s) \<and>
      (\<forall>s \<in> set post. stream_phase (snapshot_end env conf es) s) \<and>
      (post \<noteq> [] \<longleftrightarrow> handshake conf evs \<noteq> None \<and> 0 \<le> Parallel conf)"
proof -
  let ?s0 = "NewDbSyncer"
  let ?fin = "snapshot_end env conf es"
  have s0: "snapshot_phase ?s0"
    by (rule snapshot_phase_start)
  show ?thesis
  proof (cases "handshake conf evs")
    case None
    have "fst (sync env conf evs es tns) = [?s0] @ []"
      by (simp add: sync_waiting [OF None])
    moreover have "\<forall>s \<in> set [?s0]. snapshot_phase s"
      using s0 by simp
    moreover have "\<forall>s \<in> set []. stream_phase ?fin s"
      by simp
    moreover have "([] :: dbSyncer list) \<noteq> [] \<longleftrightarrow> handshake conf evs \<noteq> None \<and> 0 \<le> Parallel conf"
      using None by simp
    ultimately show ?thesis by blast
  next
    case (Some nsize)
    obtain sts r where rdb: "syncRDBFile env conf nsize es ?s0 = (sts, r)"
      by (cases "syncRDBFile env conf nsize es ?s0")
    have sts: "\<forall>s \<in> set sts. snapshot_phase s"
      using syncRDBFile_snapshot [OF s0, of env conf nsize es] rdb by simp
    have r: "r = None \<longleftrightarrow> 0 \<le> Parallel conf"
      using syncRDBFile_result [of env conf nsize es ?s0] rdb handshake_nonzero [OF Some] by simp
    show ?thesis
    proof (cases r)
      case (Some e)
      have "fst (sync env conf evs es tns) = (?s0 # sts) @ []"
        using sync_snapshot_fatal [OF \<open>handshake conf evs = Some nsize\<close>, of env es sts e tns]
          rdb Some by simp
      moreover have "\<forall>s \<in> set (?s0 # sts). snapshot_phase s"
        using s0 sts by simp
      moreover have "\<forall>s \<in> set []. stream_phase ?fin s"
        by simp
      moreover have "([] :: dbSyncer list) \<noteq> [] \<longleftrightarrow> handshake conf evs \<noteq> None \<and> 0 \<le> Parallel conf"
        using Some r by simp
      ultimately show ?thesis by blast
    next
      case None
      let ?l = "last (?s0 # sts)"
      let ?s1 = "close_waitFull ?l"
      obtain sts' r' where cmd: "syncCommand env conf tns ?s1 = (sts', r')"
        by (cases "syncCommand env conf tns ?s1")
      have par: "0 \<le> Parallel conf"
        using None r by simp
      have fin: "?l = ?fin"
        using syncRDBFile_end [OF par, of env nsize es] rdb by simp
      have "?l \<in> set (?s0 # sts)"
        by (rule last_in_set) simp
      then have "snapshot_phase ?l"
        using s0 sts by auto
      then have s1: "stream_phase ?fin ?s1"
        using close_waitFull_stream [of ?l] fin by simp
      have post: "\<forall>s \<in> set sts'. stream_phase ?fin s"
        using syncCommand_stream [OF s1, of env conf tns] cmd by simp
      have "fst (sync env conf evs es tns) = (?s0 # sts) @ (?s1 # sts')"
        using sync_commands [OF \<open>handshake conf evs = Some nsize\<close>, of env es sts tns sts' r']
          rdb None cmd by simp
      moreover have "\<forall>s \<in> set (?s0 # sts). snapshot_phase s"
        using s0 sts by simp
      moreover have "\<forall>s \<in> set (?s1 # sts'). stream_phase ?fin s"
        using post s1 by simp
      moreover have "?s1 # sts' \<noteq> [] \<longleftrightarrow> handshake conf evs \<noteq> None \<and> 0 \<le> Parallel conf"
        using par \<open>handshake conf evs = Some nsize\<close> by simp
      ultimately show ?thesis by blast
    qed
  qed
qed

theorem snapshot_done_once_when_snapshot_returns_witness:
  "\<exists>pre post. fst (sync example_env example_conf [Size 0, Size 10]
                    [(0, \<lparr>DB = 0, Key = ''a'', Payload = ''1''\<rparr>)]
                    [ParserTurn (Command ''SET'' [''b'', ''2'']), SenderTurn False False 0]) = pre @ post \<and>
      list_all snapshot_phase pre \<and>
      list_all (stream_phase (snapshot_end example_env example_conf
                  [(0, \<lparr>DB = 0, Key = ''a'', Payload = ''1''\<rparr>)])) post \<and>
      post \<noteq> []"
proof -
  have "handshake example_conf [Size 0, Size 10] \<noteq> None \<and> 0 \<le> Parallel example_conf"
    by (simp add: handshake_def example_conf_def)
  then show ?thesis
    using snapshot_done_once_when_snapshot_returns [of example_env example_conf "[Size 0, Size 10]"
        "[(0, \<lparr>DB = 0, Key = ''a'', Payload = ''1''\<rparr>)]"
        "[ParserTurn (Command ''SET'' [''b'', ''2'']), SenderTurn False False 0]"]
    unfolding list_all_iff by blast
qed

text \<open>
  C3 as stated fails for the lifetimes that end or wait before the close: with
  \<open>Parallel = -1\<close> the wait group panics in \<open>syncRDBFile\<close>, and on a size of 0 and
  timer ticks alone the handshake has not returned; in both \<open>waitFull\<close> is not closed.
\<close>

theorem lifetime_without_snapshot_done:
  "sync example_env (example_conf\<lparr>Parallel := - 1\<rparr>) [Size 10]
     [(0, \<lparr>DB = 0, Key = ''a'', Payload = ''1''\<rparr>)]
     [ParserTurn (Command ''SET'' [''b'', ''2'']), SenderTurn False False 0]
   = ([NewDbSyncer], Some NegativeWaitGroup) \<and>
   sync example_env example_conf [Size 0, Second, Second]
     [(0, \<lparr>DB = 0, Key = ''a'', Payload = ''1''\<rparr>)]
     [ParserTurn (Command ''SET'' [''b'', ''2'']), SenderTurn False False 0]
   = ([NewDbSyncer], None) \<and>
   waitFull NewDbSyncer = 0"
  by (simp add: sync_def handshake_def syncRDBFile_def example_conf_def NewDbSyncer_def)

lemma sendSyncCmd_keepalive:
  "\<forall>ev \<in> set ka. keepalive ev \<Longrightarrow> sendSyncCmd (ka @ evs) = sendSyncCmd evs"
  by (induction ka rule: sendSyncCmd.induct) (auto simp add: keepalive_def)

lemma sendSyncCmd_waits: "\<forall>ev \<in> set ka. keepalive ev \<Longrightarrow> sendSyncCmd ka = None"
  using sendSyncCmd_keepalive [of ka "[]"] by simp

lemma sendSyncCmd_returns:
  "\<forall>ev \<in> set ka. keepalive ev \<Longrightarrow> n \<noteq> 0 \<Longrightarrow> sendSyncCmd (ka @ Size n # evs) = Some n"
  by (simp add: sendSyncCmd_keepalive)

lemma not_special_SET:
  "\<not> EqualFold ''SET'' ''select''" "\<not> EqualFold ''SET'' ''opinfo''" "''SET'' \<noteq> ''ping''"
  by (simp_all add: EqualFold_def lower_ascii_def char_of_eq_iff)

lemma emit_plain:
  "FilterKey conf = [] \<Longrightarrow> \<not> bypass st \<Longrightarrow>
   emit_cmd env conf False False scmd argv st =
     st\<lparr>sendBuf := sendBuf st @ [\<lparr>Cmd = scmd, Args = argv\<rparr>]\<rparr>"
  by (simp add: emit_cmd_def filter_key_def)

lemma parse_SET:
  assumes "FilterKey conf = []" and "\<not> bypass st"
  shows "parse_step env conf st (Command ''SET'' [k, v]) =
           Inr ((count_pull env conf st)
                  \<lparr>sendBuf := sendBuf st @ [\<lparr>Cmd = ''SET'', Args = [k, v]\<rparr>]\<rparr>)"
  using assms
  by (simp add: parse_step_def parse_cmd_other not_special_SET emit_plain count_pull_simps)

lemma send_last:
  assumes "sendBuf st = [item]"
  shows "\<exists>st'. send_cmd conf False False now st = Inr st' \<and>
           forward st' = forward st + 1 \<and>
           target st' = target st @ [Send (Cmd item) (Args item), Flush] \<and>
           sendBuf st' = [] \<and> nentry st' = nentry st \<and> waitFull st' = waitFull st"
  using assms by (simp add: send_cmd_def Let_def addDelayChan_def)

lemma count_pull_more:
  "forward (count_pull env conf st) = forward st"
  "target (count_pull env conf st) = target st"
  "nentry (count_pull env conf st) = nentry st"
  "waitFull (count_pull env conf st) = waitFull st"
  by (simp_all add: count_pull_def Let_def)

lemma syncCommand_run:
  "makechan_ok env 40 (SenderCount conf) \<Longrightarrow>
   makechan_ok env 8 (SenderDelayChannelSize conf) \<Longrightarrow>
   pipeline env conf tns (syncCommand_init st) = (sts, r) \<Longrightarrow>
   syncCommand env conf tns st = (syncCommand_init st # sts, r)"
  by (simp add: syncCommand_def Let_def)

lemma SET_forwarded:
  assumes "FilterKey conf = []"
    and "makechan_ok env 40 (SenderCount conf)"
    and "makechan_ok env 8 (SenderDelayChannelSize conf)"
  shows "\<exists>sts s. syncCommand env conf
            [ParserTurn (Command ''SET'' [k, v]), SenderTurn False False now] st = (sts @ [s], None) \<and>
          forward s = forward st + 1 \<and> target s = target st @ [Send ''SET'' [k, v], Flush] \<and>
          sendBuf s = [] \<and> nentry s = nentry st \<and> waitFull s = waitFull st"
proof -
  let ?st0 = "syncCommand_init st"
  let ?st1 = "(count_pull env conf ?st0)\<lparr>sendBuf := sendBuf ?st0 @ [\<lparr>Cmd = ''SET'', Args = [k, v]\<rparr>]\<rparr>"
  have i: "\<not> bypass ?st0" "sendBuf ?st0 = []" "forward ?st0 = forward st" "target ?st0 = target st"
    "nentry ?st0 = nentry st" "waitFull ?st0 = waitFull st"
    by (simp_all add: syncCommand_init_def)
  have p: "parse_step env conf ?st0 (Command ''SET'' [k, v]) = Inr ?st1"
    using assms(1) i(1) by (rule parse_SET)
  have b: "sendBuf ?st1 = [\<lparr>Cmd = ''SET'', Args = [k, v]\<rparr>]"
    using i(2) by simp
  obtain s where s: "send_cmd conf False False now ?st1 = Inr s"
    and f: "forward s = forward ?st1 + 1"
      "target s = target ?st1 @ [Send ''SET'' [k, v], Flush]"
      "sendBuf s = []" "nentry s = nentry ?st1" "waitFull s = waitFull ?st1"
    using send_last [OF b, of conf now] by auto
  have "pipeline env conf [ParserTurn (Command ''SET'' [k, v]), SenderTurn False False now] ?st0
          = ([?st1, s], None)"
    using p s by (simp add: pipeline_step_def)
  then have "syncCommand env conf [ParserTurn (Command ''SET'' [k, v]), SenderTurn False False now] st
          = ([?st0, ?st1] @ [s], None)"
    using syncCommand_run [OF assms(2,3)] by simp
  moreover have "forward s = forward st + 1" "target s = target st @ [Send ''SET'' [k, v], Flush]"
    "nentry s = nentry st" "waitFull s = waitFull st"
    using f i by (simp_all add: count_pull_more)
  ultimately show ?thesis using f(3) by blast
qed

lemma syncRDBFile_empty:
  "0 \<le> Parallel conf \<Longrightarrow> n \<noteq> 0 \<Longrightarrow>
   syncRDBFile env conf n [] st =
     ([st\<lparr>workers := replicate (nat (Parallel conf)) \<lparr>rlastdb = 0, conn = []\<rparr>\<rparr>], None)"
  by (simp add: syncRDBFile_def Let_def)

lemma makechan_too_large: "\<not> makechan_ok env 40 (2 ^ 62)"
  by (simp add: makechan_ok_def)

text \<open>
  C9, as it holds. In classic mode a size of 0 is a keepalive: on zero sizes and timer
  ticks alone the handshake does not return and the syncer stays in its first state.
  When a size other than 0 follows, \<open>Parallel\<close> is not negative, the snapshot has no
  record, the two channels of \<open>syncCommand\<close> can be made and no key filter is
  configured, \<open>waitFull\<close> is closed with \<open>nentry\<close> at 0, and a command \<open>SET k v\<close>
  streamed afterwards and accepted by the target is sent with \<open>forward\<close> at 1.
\<close>

theorem classic_sync_waits_for_nonzero_size:
  assumes "\<not> Psync conf" and "0 \<le> Parallel conf" and "FilterKey conf = []"
    and "makechan_ok env 40 (SenderCount conf)"
    and "makechan_ok env 8 (SenderDelayChannelSize conf)"
    and "\<forall>ev \<in> set ka. keepalive ev" and "n \<noteq> 0"
  shows "sync env conf ka es tns = ([NewDbSyncer], None) \<and>
         (\<exists>sts s. sync env conf (ka @ Size n # evs) []
                     [ParserTurn (Command ''SET'' [k, v]), SenderTurn False False now]
                   = (sts @ [s], None) \<and>
            waitFull s = 1 \<and> nentry s = 0 \<and> forward s = 1 \<and>
            target s = [Send ''SET'' [k, v], Flush])"
proof
  have "handshake conf ka = None"
    using assms(1,6) by (simp add: handshake_def sendSyncCmd_waits)
  then show "sync env conf ka es tns = ([NewDbSyncer], None)"
    by (rule sync_waiting)
next
  let ?w = "NewDbSyncer\<lparr>workers := replicate (nat (Parallel conf)) \<lparr>rlastdb = 0, conn = []\<rparr>\<rparr>"
  let ?s1 = "close_waitFull (last (NewDbSyncer # [?w]))"
  let ?tns = "[ParserTurn (Command ''SET'' [k, v]), SenderTurn False False now]"
  have h: "handshake conf (ka @ Size n # evs) = Some n"
    using assms(1,6,7) by (simp add: handshake_def sendSyncCmd_returns)
  have rdb: "syncRDBFile env conf n [] NewDbSyncer = ([?w], None)"
    using assms(2,7) by (rule syncRDBFile_empty)
  have s1: "waitFull ?s1 = 1" "nentry ?s1 = 0" "forward ?s1 = 0" "target ?s1 = []"
    by (simp_all add: close_waitFull_def NewDbSyncer_def)
  obtain sts s where cmd: "syncCommand env conf ?tns ?s1 = (sts @ [s], None)"
    and f: "forward s = forward ?s1 + 1" "target s = target ?s1 @ [Send ''SET'' [k, v], Flush]"
      "nentry s = nentry ?s1" "waitFull s = waitFull ?s1"
    using SET_forwarded [OF assms(3,4,5), of k v now ?s1] by blast
  have "sync env conf (ka @ Size n # evs) [] ?tns =
          ((NewDbSyncer # [?w] @ [?s1] @ sts) @ [s], None)"
    using sync_commands [OF h rdb cmd] by simp
  moreover have "waitFull s = 1" "nentry s = 0" "forward s = 1"
    "target s = [Send ''SET'' [k, v], Flush]"
    using f s1 by simp_all
  ultimately show "\<exists>sts s. sync env conf (ka @ Size n # evs) [] ?tns = (sts @ [s], None) \<and>
      waitFull s = 1 \<and> nentry s = 0 \<and> forward s = 1 \<and> target s = [Send ''SET'' [k, v], Flush]"
    by blast
qed

theorem classic_sync_waits_for_nonzero_size_witness:
  "\<not> Psync example_conf \<and> 0 \<le> Parallel example_conf \<and> FilterKey example_conf = [] \<and>
   makechan_ok example_env 40 (SenderCount example_conf) \<and>
   makechan_ok example_env 8 (SenderDelayChannelSize example_conf) \<and>
   keepalive (Size 0) \<and> keepalive Second \<and> (10 :: 64 word) \<noteq> 0 \<and>
   (\<exists>sts s. sync example_env example_conf ([Size 0, Second] @ Size 10 # []) []
               [ParserTurn (Command ''SET'' [''k'', ''v'']), SenderTurn False False 0]
             = (sts @ [s], None) \<and>
      waitFull s = 1 \<and> nentry s = 0 \<and> forward s = 1 \<and>
      target s = [Send ''SET'' [''k'', ''v''], Flush])"
proof -
  have a: "\<not> Psync example_conf" "0 \<le> Parallel example_conf" "FilterKey example_conf = []"
    by (simp_all add: example_conf_def)
  have m: "makechan_ok example_env 40 (SenderCount example_conf)"
    "makechan_ok example_env 8 (SenderDelayChannelSize example_conf)"
    by (simp_all add: makechan_ok_def example_env_def example_conf_def)
  have b: "\<forall>ev \<in> set [Size 0, Second]. keepalive ev"
    by (simp add: keepalive_def)
  have c: "(10 :: 64 word) \<noteq> 0"
    by simp
  have d: "keepalive (Size 0)" "keepalive Second"
    by (simp_all add: keepalive_def)
  show ?thesis
    using a m c d
      classic_sync_waits_for_nonzero_size [OF a m b c, of "[]" "[]" "[]" "''k''" "''v''" 0]
    by blast
qed

text \<open>
  C9 as stated fails: after the announcement of size 0 and two seconds, the handshake
  has not returned, \<open>waitFull\<close> is not closed and nothing is forwarded.
\<close>

theorem size_zero_does_not_complete:
  "sync example_env example_conf [Size 0, Second, Second] []
     [ParserTurn (Command ''SET'' [''k'', ''v'']), SenderTurn False False 0]
   = ([NewDbSyncer], None) \<and>
   waitFull NewDbSyncer = 0 \<and> forward NewDbSyncer = 0"
  by (simp add: sync_def handshake_def example_conf_def NewDbSyncer_def)

end
